theory Spec2Isabelle
  imports Complex_Main "HOL-Library.Product_Lexorder" "HOL-Library.List_Lexorder"
    "HOL-Library.Char_ord"
begin

section \<open>Stokvela: rule engine, penalties, due dates, collection rates, bank accounts\<close>

text \<open>
  A shallow embedding of the parts of the Stokvela Django application that carry its
  financial logic: \<^verbatim>\<open>stokvel/models.py\<close>, \<^verbatim>\<open>stokvel/services.py\<close>,
  \<^verbatim>\<open>stokvel/utils.py\<close> and \<^verbatim>\<open>finances/models.py\<close>.

  Conventions of the embedding:
  \<^item> a model class is a \<^theory_text>\<open>record\<close> of its columns; a database table is the list of
    its rows, in the order in which the database yields rows that tie under an
    \<^verbatim>\<open>ORDER BY\<close>;
  \<^item> a nullable column is an \<open>option\<close>; a comparison lookup on a \<^verbatim>\<open>NULL\<close> column selects
    nothing, as in SQL;
  \<^item> \<^verbatim>\<open>Decimal\<close> amounts are exact rationals (\<open>rat\<close>): sums, differences and products
    of the stored two-place decimals are exact in Python's 28-digit context, and a quotient
    is read as the exact quotient;
  \<^item> Python's unbounded \<^verbatim>\<open>int\<close> is \<open>int\<close>;
  \<^item> every exception is a value: a function that can raise returns \<open>error + 'a\<close>;
  \<^item> \<^verbatim>\<open>timezone.now().date()\<close> is a parameter \<open>today\<close>.
\<close>

subsection \<open>Exceptions\<close>

datatype error =
    ValidationError string
  | ValueError
  | NameError string
  | IllegalMonthError
  | DivisionByZero
  | InvalidOperation
  | AttributeError

subsection \<open>Dates and the standard library's calendar\<close>

text \<open>
  A \<^verbatim>\<open>datetime.date\<close> is the triple (year, month, day); Python compares dates
  lexicographically, which is the order of \<open>Product_Lexorder\<close>.
\<close>

type_synonym date = "int \<times> int \<times> int"

definition isleap :: "int \<Rightarrow> bool" where
  "isleap year \<longleftrightarrow> year mod 4 = 0 \<and> (year mod 100 \<noteq> 0 \<or> year mod 400 = 0)"

text \<open>\<^verbatim>\<open>calendar.mdays\<close>, indexed by the month number.\<close>

definition mdays :: "int \<Rightarrow> int" where
  "mdays month =
     (if month = 2 then 28
      else if month = 4 \<or> month = 6 \<or> month = 9 \<or> month = 11 then 30
      else 31)"

text \<open>
  The second component of \<^verbatim>\<open>calendar.monthrange(year, month)\<close>: the number of days of
  the month. A month outside 1..12 raises \<^verbatim>\<open>IllegalMonthError\<close>; any year is accepted.
\<close>

definition monthrange_ndays :: "int \<Rightarrow> int \<Rightarrow> error + int" where
  "monthrange_ndays year month =
     (if \<not> (1 \<le> month \<and> month \<le> 12) then Inl IllegalMonthError
      else Inr (mdays month + (if month = 2 \<and> isleap year then 1 else 0)))"

text \<open>
  The constructor \<^verbatim>\<open>date(year, month, day)\<close>: \<^verbatim>\<open>ValueError\<close> unless the year is in
  1..9999, the month in 1..12 and the day in 1..(days of that month).
\<close>

definition mk_date :: "int \<Rightarrow> int \<Rightarrow> int \<Rightarrow> error + date" where
  "mk_date year month day =
     (if 1 \<le> year \<and> year \<le> 9999 \<and> 1 \<le> month \<and> month \<le> 12 \<and> 1 \<le> day
         \<and> day \<le> mdays month + (if month = 2 \<and> isleap year then 1 else 0)
      then Inr (year, month, day) else Inl ValueError)"

text \<open>\<^verbatim>\<open>date.max\<close>\<close>

definition date_max :: date where
  "date_max = (9999, 12, 31)"

subsection \<open>\<^verbatim>\<open>stokvel/utils.py\<close>: \<^verbatim>\<open>DateUtils\<close>\<close>

definition get_month_end_date :: "int \<Rightarrow> int \<Rightarrow> error + date" where
  "get_month_end_date year month =
     (case monthrange_ndays year month of
        Inl e \<Rightarrow> Inl e
      | Inr last_day \<Rightarrow> mk_date year month last_day)"

definition get_due_date_for_month :: "int \<Rightarrow> int \<Rightarrow> int \<Rightarrow> error + date" where
  "get_due_date_for_month year month due_day =
     (if due_day = 31 then get_month_end_date year month
      else (case monthrange_ndays year month of
              Inl e \<Rightarrow> Inl e
            | Inr last_day \<Rightarrow>
                (let actual_day = min due_day last_day
                 in mk_date year month actual_day)))"

subsection \<open>\<^verbatim>\<open>stokvel/models.py\<close>: \<^verbatim>\<open>PenaltyRule\<close>\<close>

type_synonym stokvel_id = nat

record PenaltyRule =
  pk :: nat
  stokvel :: stokvel_id
  name_pr :: string
  penalty_type :: string
  calculation_method :: string
  amount :: rat
  grace_period_days :: int
  maximum_amount :: "rat option"
  effective_from :: date
  effective_until :: "date option"
  is_active :: bool

text \<open>
  \<^verbatim>\<open>PenaltyRule.calculate_penalty\<close>. The test \<^verbatim>\<open>if self.maximum_amount and ...\<close> is a
  truth test: \<^verbatim>\<open>None\<close> and \<^verbatim>\<open>Decimal('0.00')\<close> are both false.
\<close>

definition calculate_penalty :: "PenaltyRule \<Rightarrow> rat \<Rightarrow> int \<Rightarrow> rat" where
  "calculate_penalty self base_amount days_late =
     (if days_late \<le> grace_period_days self then 0
      else
        (let penalty =
               (if calculation_method self = ''fixed'' then amount self
                else if calculation_method self = ''percentage''
                  then base_amount * (amount self / 100)
                else if calculation_method self = ''daily''
                  then amount self * of_int (days_late - grace_period_days self)
                else amount self)
         in (case maximum_amount self of
               None \<Rightarrow> penalty
             | Some m \<Rightarrow> if m \<noteq> 0 \<and> penalty > m then m else penalty)))"

text \<open>
  The rule of the specification's first scenario: R500 a day after five days of grace,
  with the cap left as a parameter.
\<close>

definition scenario_daily_rule :: "rat option \<Rightarrow> PenaltyRule" where
  "scenario_daily_rule cap =
     \<lparr> pk = 1, stokvel = 1, name_pr = ''Late payment'', penalty_type = ''late_payment'',
       calculation_method = ''daily'', amount = 500, grace_period_days = 5,
       maximum_amount = cap, effective_from = (2025, 1, 1), effective_until = None,
       is_active = True \<rparr>"

text \<open>A flat R50 penalty without grace, with the cap left as a parameter.\<close>

definition scenario_fixed_rule :: "rat option \<Rightarrow> PenaltyRule" where
  "scenario_fixed_rule cap =
     \<lparr> pk = 2, stokvel = 1, name_pr = ''Flat fee'', penalty_type = ''late_payment'',
       calculation_method = ''fixed'', amount = 50, grace_period_days = 0,
       maximum_amount = cap, effective_from = (2025, 1, 1), effective_until = None,
       is_active = True \<rparr>"

subsection \<open>\<^verbatim>\<open>finances/models.py\<close>: \<^verbatim>\<open>PaymentPeriod\<close>\<close>

text \<open>
  \<^verbatim>\<open>Decimal\<close> division raises on a zero divisor (\<^verbatim>\<open>DivisionByZero\<close>, or
  \<^verbatim>\<open>InvalidOperation\<close> for 0/0) under Python's default context.
\<close>

definition decimal_div :: "rat \<Rightarrow> rat \<Rightarrow> error + rat" where
  "decimal_div a b =
     (if b = 0 then (if a = 0 then Inl InvalidOperation else Inl DivisionByZero)
      else Inr (a / b))"

text \<open>
  \<^verbatim>\<open>round(d, n)\<close> on a \<^verbatim>\<open>Decimal\<close>: quantisation to \<open>n\<close> places, ties to the even
  neighbour.
\<close>

definition round_decimal :: "rat \<Rightarrow> nat \<Rightarrow> rat" where
  "round_decimal d n =
     (let scaled = d * 10 ^ n;
          lower = \<lfloor>scaled\<rfloor>;
          rest = scaled - of_int lower
      in of_int (if rest < 1 / 2 then lower
                 else if 1 / 2 < rest then lower + 1
                 else if even lower then lower else lower + 1) / 10 ^ n)"

text \<open>SQL's \<^verbatim>\<open>SUM\<close> aggregate: \<^verbatim>\<open>NULL\<close> over no rows.\<close>

definition aggregate_sum :: "rat list \<Rightarrow> rat option" where
  "aggregate_sum xs = (if xs = [] then None else Some (sum_list xs))"

text \<open>The rows of the related tables that the period's properties read.\<close>

record Member =
  stokvel_m :: stokvel_id
  status :: string

record Contribution =
  payment_period :: nat
  amount_c :: rat
  verification_status :: string

record PaymentPeriod =
  pk_pp :: nat
  stokvel_pp :: stokvel_id
  due_date :: date
  expected_amount_per_member :: rat

definition total_expected_amount :: "Member list \<Rightarrow> PaymentPeriod \<Rightarrow> rat" where
  "total_expected_amount members self =
     (let active_members_count =
            length (filter (\<lambda>m. stokvel_m m = stokvel_pp self \<and> status m = ''active'') members)
      in expected_amount_per_member self * of_nat active_members_count)"

definition total_received_amount :: "Contribution list \<Rightarrow> PaymentPeriod \<Rightarrow> rat" where
  "total_received_amount contributions self =
     (case aggregate_sum
             (map amount_c
                (filter (\<lambda>c. payment_period c = pk_pp self \<and> verification_status c = ''verified'')
                   contributions)) of
        None \<Rightarrow> 0
      | Some total_sum \<Rightarrow> if total_sum = 0 then 0 else total_sum)"

definition collection_percentage ::
    "Member list \<Rightarrow> Contribution list \<Rightarrow> PaymentPeriod \<Rightarrow> error + rat" where
  "collection_percentage members contributions self =
     (let expected = total_expected_amount members self
      in if expected > 0
         then (case decimal_div (total_received_amount contributions self) expected of
                 Inl e \<Rightarrow> Inl e
               | Inr q \<Rightarrow> Inr (q * 100))
         else Inr 0)"

subsection \<open>\<^verbatim>\<open>stokvel/utils.py\<close>: \<^verbatim>\<open>StokvelReportUtils\<close>\<close>

record contribution_statistics =
  total_expected :: rat
  total_received :: rat
  total_outstanding :: rat
  collection_rate :: rat
  periods_count :: nat

definition calculate_contribution_statistics ::
    "date \<Rightarrow> Member list \<Rightarrow> Contribution list \<Rightarrow> PaymentPeriod list \<Rightarrow> stokvel_id
       \<Rightarrow> date option \<Rightarrow> date option \<Rightarrow> error + contribution_statistics" where
  "calculate_contribution_statistics today members contributions payment_periods stokvel_arg
       start_date end_date =
     (let start_date = (case start_date of
                          None \<Rightarrow> (fst today, fst (snd today), 1)
                        | Some d \<Rightarrow> d);
          end_date = (case end_date of None \<Rightarrow> today | Some d \<Rightarrow> d);
          periods = filter (\<lambda>p. stokvel_pp p = stokvel_arg \<and> start_date \<le> due_date p
                                \<and> due_date p \<le> end_date) payment_periods;
          expected = sum_list (map (total_expected_amount members) periods);
          received = sum_list (map (total_received_amount contributions) periods)
      in (case (if expected > 0
                then (case decimal_div received expected of
                        Inl e \<Rightarrow> Inl e
                      | Inr q \<Rightarrow> Inr (round_decimal (q * 100) 2))
                else Inr 0) of
            Inl e \<Rightarrow> Inl e
          | Inr rate \<Rightarrow>
              Inr \<lparr> total_expected = expected, total_received = received,
                    total_outstanding = expected - received, collection_rate = rate,
                    periods_count = length periods \<rparr>))"

text \<open>
  The specification's fifth scenario: R200 per member, ten active members and one who
  left, seven verified payments of R200 and one still pending.
\<close>

definition scenario_period :: PaymentPeriod where
  "scenario_period =
     \<lparr> pk_pp = 1, stokvel_pp = 1, due_date = (2025, 3, 31), expected_amount_per_member = 200 \<rparr>"

definition scenario_members :: "Member list" where
  "scenario_members =
     replicate 10 \<lparr> stokvel_m = 1, status = ''active'' \<rparr>
       @ [\<lparr> stokvel_m = 1, status = ''exited'' \<rparr>]"

definition scenario_contributions :: "Contribution list" where
  "scenario_contributions =
     replicate 7 \<lparr> payment_period = 1, amount_c = 200, verification_status = ''verified'' \<rparr>
       @ [\<lparr> payment_period = 1, amount_c = 200, verification_status = ''pending'' \<rparr>]"

subsection \<open>Django query sets\<close>

text \<open>
  The lookup \<^verbatim>\<open>column__gte=value\<close> on a nullable column: a \<^verbatim>\<open>NULL\<close> column compares
  to nothing, so the row is not selected.
\<close>

definition lookup_gte :: "date option \<Rightarrow> date \<Rightarrow> bool" where
  "lookup_gte column v = (case column of None \<Rightarrow> False | Some c \<Rightarrow> v \<le> c)"

text \<open>
  The value of a comparison lookup: Django's \<^verbatim>\<open>QuerySet.filter\<close> raises
  \<^verbatim>\<open>ValueError("Cannot use None as a query value")\<close> when it is \<^verbatim>\<open>None\<close> (only
  \<^verbatim>\<open>exact\<close> and \<^verbatim>\<open>iexact\<close> accept it), while the query is built.
\<close>

definition query_value :: "date option \<Rightarrow> error + date" where
  "query_value v = (case v of None \<Rightarrow> Inl ValueError | Some d \<Rightarrow> Inr d)"

text \<open>The key an auto-incrementing primary key column gives the next inserted row.\<close>

definition next_pk :: "nat list \<Rightarrow> nat" where
  "next_pk pks = Suc (foldr max pks 0)"

text \<open>\<^verbatim>\<open>if not d: d = timezone.now().date()\<close>: a date is never false, only \<^verbatim>\<open>None\<close> is.\<close>

definition or_today :: "date \<Rightarrow> date option \<Rightarrow> date" where
  "or_today today d = (case d of None \<Rightarrow> today | Some d' \<Rightarrow> d')"

text \<open>
  \<^verbatim>\<open>QuerySet.first()\<close> on penalty rules. \<^verbatim>\<open>PenaltyRule.Meta.ordering\<close> is
  \<^verbatim>\<open>['stokvel', 'penalty_type']\<close>, so the rows are sorted by that key and the first one is
  returned; rows with equal keys keep the order in which the table lists them
  (\<open>sort_key\<close> is stable).
\<close>

definition first_penalty_rule :: "PenaltyRule list \<Rightarrow> PenaltyRule option" where
  "first_penalty_rule rows =
     (case sort_key (\<lambda>r. (stokvel r, penalty_type r)) rows of
        [] \<Rightarrow> None
      | r # _ \<Rightarrow> Some r)"

subsection \<open>\<^verbatim>\<open>stokvel/models.py\<close>: \<^verbatim>\<open>ContributionRule\<close> and rule activity\<close>

record ContributionRule =
  pk_cr :: nat
  stokvel_cr :: stokvel_id
  name_cr :: string
  contribution_type :: string
  amount_cr :: rat
  frequency :: string
  effective_from_cr :: date
  effective_until_cr :: "date option"
  is_active_cr :: bool
  is_mandatory :: bool

text \<open>\<^verbatim>\<open>PenaltyRule.is_active_for_date\<close>\<close>

definition is_active_for_date :: "PenaltyRule \<Rightarrow> date \<Rightarrow> bool" where
  "is_active_for_date self target_date =
     (if \<not> is_active self then False
      else if effective_from self > target_date then False
      else if (case effective_until self of None \<Rightarrow> False | Some u \<Rightarrow> u < target_date)
        then False
      else True)"

subsection \<open>\<^verbatim>\<open>stokvel/services.py\<close>: \<^verbatim>\<open>ContributionRuleService\<close>\<close>

text \<open>
  \<^verbatim>\<open>create_contribution_rule\<close> returns the new rule and the table with the rule
  inserted. The keyword argument
  \<^verbatim>\<open>effective_until__gte=effective_from if effective_until else None\<close> is the conditional
  expression \<^verbatim>\<open>(effective_from if effective_until else None)\<close>.
\<close>

definition create_contribution_rule ::
    "date \<Rightarrow> ContributionRule list \<Rightarrow> stokvel_id \<Rightarrow> string \<Rightarrow> string \<Rightarrow> rat \<Rightarrow> string
       \<Rightarrow> date option \<Rightarrow> date option \<Rightarrow> bool
       \<Rightarrow> error + (ContributionRule \<times> ContributionRule list)" where
  "create_contribution_rule today contribution_rules stokvel_arg name_arg contribution_type_arg
       amount_arg frequency_arg effective_from_arg effective_until_arg is_mandatory_arg =
     (let effective_from_arg = or_today today effective_from_arg
      in if amount_arg \<le> 0
         then Inl (ValidationError ''Contribution amount must be greater than 0'')
         else
           (case query_value (if effective_until_arg \<noteq> None then Some effective_from_arg
                              else None) of
              Inl e \<Rightarrow> Inl e
            | Inr lower \<Rightarrow>
                (let overlapping_rules =
                       filter (\<lambda>r. stokvel_cr r = stokvel_arg
                                    \<and> contribution_type r = contribution_type_arg
                                    \<and> is_active_cr r
                                    \<and> effective_from_cr r
                                         \<le> (case effective_until_arg of
                                               None \<Rightarrow> date_max | Some u \<Rightarrow> u)
                                    \<and> lookup_gte (effective_until_cr r) lower)
                         contribution_rules
                 in if overlapping_rules \<noteq> []
                    then Inl (ValidationError
                                (''Overlapping '' @ contribution_type_arg
                                   @ '' rule already exists for this period''))
                    else
                      (let rule = \<lparr> pk_cr = next_pk (map pk_cr contribution_rules),
                                     stokvel_cr = stokvel_arg, name_cr = name_arg,
                                     contribution_type = contribution_type_arg,
                                     amount_cr = amount_arg, frequency = frequency_arg,
                                     effective_from_cr = effective_from_arg,
                                     effective_until_cr = effective_until_arg,
                                     is_active_cr = True,
                                     is_mandatory = is_mandatory_arg \<rparr>
                       in Inr (rule, contribution_rules @ [rule])))))"

subsection \<open>\<^verbatim>\<open>stokvel/services.py\<close>: \<^verbatim>\<open>PenaltyRuleService\<close>\<close>

definition create_penalty_rule ::
    "date \<Rightarrow> PenaltyRule list \<Rightarrow> stokvel_id \<Rightarrow> string \<Rightarrow> string \<Rightarrow> string \<Rightarrow> rat \<Rightarrow> int
       \<Rightarrow> rat option \<Rightarrow> date option \<Rightarrow> error + (PenaltyRule \<times> PenaltyRule list)" where
  "create_penalty_rule today penalty_rules stokvel_arg name_arg penalty_type_arg
       calculation_method_arg amount_arg grace_period_days_arg maximum_amount_arg
       effective_from_arg =
     (let effective_from_arg = or_today today effective_from_arg
      in if calculation_method_arg = ''percentage'' \<and> amount_arg > 100
         then Inl (ValidationError ''Percentage penalty cannot exceed 100%'')
         else if amount_arg < 0
         then Inl (ValidationError ''Penalty amount cannot be negative'')
         else
           (let existing_rule =
                  first_penalty_rule
                    (filter (\<lambda>r. stokvel r = stokvel_arg \<and> penalty_type r = penalty_type_arg
                                 \<and> is_active r \<and> effective_from r \<le> today
                                 \<and> lookup_gte (effective_until r) today)
                       penalty_rules)
            in if existing_rule \<noteq> None
               then Inl (ValidationError
                           (''Active '' @ penalty_type_arg @ '' rule already exists. ''
                              @ ''Deactivate existing rule before creating new one.''))
               else
                 (let rule = \<lparr> pk = next_pk (map pk penalty_rules), stokvel = stokvel_arg,
                                name_pr = name_arg, penalty_type = penalty_type_arg,
                                calculation_method = calculation_method_arg,
                                amount = amount_arg,
                                grace_period_days = grace_period_days_arg,
                                maximum_amount = maximum_amount_arg,
                                effective_from = effective_from_arg,
                                effective_until = None, is_active = True \<rparr>
                  in Inr (rule, penalty_rules @ [rule]))))"

text \<open>
  \<^verbatim>\<open>get_applicable_penalty_rules\<close>: \<^verbatim>\<open>q1.first() or q2.first()\<close>, where a model
  instance is always true.
\<close>

definition get_applicable_penalty_rules ::
    "date \<Rightarrow> PenaltyRule list \<Rightarrow> stokvel_id \<Rightarrow> string \<Rightarrow> date option \<Rightarrow> PenaltyRule option" where
  "get_applicable_penalty_rules today penalty_rules stokvel_arg penalty_type_arg as_of_date =
     (let as_of_date = or_today today as_of_date
      in (case first_penalty_rule
                (filter (\<lambda>r. stokvel r = stokvel_arg \<and> penalty_type r = penalty_type_arg
                             \<and> is_active r \<and> effective_from r \<le> as_of_date
                             \<and> lookup_gte (effective_until r) as_of_date)
                   penalty_rules) of
            Some r \<Rightarrow> Some r
          | None \<Rightarrow>
              first_penalty_rule
                (filter (\<lambda>r. stokvel r = stokvel_arg \<and> penalty_type r = penalty_type_arg
                             \<and> is_active r \<and> effective_from r \<le> as_of_date
                             \<and> effective_until r = None)
                   penalty_rules)))"

subsection \<open>\<^verbatim>\<open>stokvel/utils.py\<close>: \<^verbatim>\<open>PenaltyCalculator\<close>\<close>

text \<open>
  The names that \<^verbatim>\<open>stokvel/utils.py\<close> binds at module level: its imports
  (\<^verbatim>\<open>from datetime import date, timedelta\<close>, \<^verbatim>\<open>from decimal import Decimal\<close>,
  \<^verbatim>\<open>from typing import List, Dict, Tuple, Optional\<close>, \<^verbatim>\<open>import calendar\<close>,
  \<^verbatim>\<open>from django.utils import timezone\<close>,
  \<^verbatim>\<open>from .models import Stokvel, ContributionRule, PenaltyRule\<close>) and its classes.
  The module \<^verbatim>\<open>django.db.models\<close> is not among them.
\<close>

definition utils_module_names :: "string list" where
  "utils_module_names =
     [''date'', ''timedelta'', ''Decimal'', ''List'', ''Dict'', ''Tuple'', ''Optional'',
      ''calendar'', ''timezone'', ''Stokvel'', ''ContributionRule'', ''PenaltyRule'',
      ''DateUtils'', ''ContributionCalculator'', ''PenaltyCalculator'',
      ''StokvelReportUtils'', ''ValidationUtils'']"

text \<open>Reading a global name of the module: \<^verbatim>\<open>NameError\<close> when it is not bound.\<close>

definition utils_global :: "string \<Rightarrow> error + unit" where
  "utils_global n = (if n \<in> set utils_module_names then Inr () else Inl (NameError n))"

text \<open>
  Lines 221 to 235 of \<^verbatim>\<open>calculate_insufficient_payment_penalty\<close>: the rule lookup and
  the penalty on the shortage, computed with \<^verbatim>\<open>days_late = 0\<close>.
\<close>

definition insufficient_payment_lookup ::
    "PenaltyRule list \<Rightarrow> stokvel_id \<Rightarrow> rat \<Rightarrow> date \<Rightarrow> rat \<times> PenaltyRule option" where
  "insufficient_payment_lookup penalty_rules stokvel_arg shortage payment_date =
     (case first_penalty_rule
             (filter (\<lambda>r. effective_until r = None \<or> lookup_gte (effective_until r) payment_date)
                (filter (\<lambda>r. stokvel r = stokvel_arg
                              \<and> penalty_type r = ''insufficient_payment''
                              \<and> is_active r \<and> effective_from r \<le> payment_date)
                   penalty_rules)) of
        None \<Rightarrow> (0, None)
      | Some penalty_rule \<Rightarrow>
          (calculate_penalty penalty_rule shortage 0, Some penalty_rule))"

text \<open>
  \<^verbatim>\<open>calculate_insufficient_payment_penalty\<close>. The arguments of the second
  \<^verbatim>\<open>.filter(...)\<close> call are \<^verbatim>\<open>models.Q(...) | models.Q(...)\<close>; evaluating them reads the
  global name \<^verbatim>\<open>models\<close> before any row is fetched.
\<close>

definition calculate_insufficient_payment_penalty ::
    "PenaltyRule list \<Rightarrow> stokvel_id \<Rightarrow> rat \<Rightarrow> rat \<Rightarrow> date
       \<Rightarrow> error + (rat \<times> PenaltyRule option)" where
  "calculate_insufficient_payment_penalty penalty_rules stokvel_arg paid_amount
       expected_amount payment_date =
     (if paid_amount \<ge> expected_amount then Inr (0, None)
      else
        (let shortage = expected_amount - paid_amount
         in (case utils_global ''models'' of
               Inl e \<Rightarrow> Inl e
             | Inr _ \<Rightarrow>
                 Inr (insufficient_payment_lookup penalty_rules stokvel_arg shortage
                        payment_date))))"

text \<open>
  Two late-payment rules of stokvel 1 that are both in force on 2025-07-01: the older one
  runs from 2025-01-01 to 2025-12-31, the newer one from 2025-06-01 with no end.
\<close>

definition scenario_older_rule :: PenaltyRule where
  "scenario_older_rule = (scenario_daily_rule None)\<lparr>effective_until := Some (2025, 12, 31)\<rparr>"

definition scenario_newer_rule :: PenaltyRule where
  "scenario_newer_rule = (scenario_fixed_rule None)\<lparr>effective_from := (2025, 6, 1)\<rparr>"

text \<open>An insufficient-payment rule of stokvel 1: a flat R50 without grace.\<close>

definition scenario_shortfall_rule :: PenaltyRule where
  "scenario_shortfall_rule = (scenario_fixed_rule None)\<lparr>penalty_type := ''insufficient_payment''\<rparr>"

subsection \<open>Overlap of effective intervals, in the specification's words\<close>

text \<open>
  The specification's write-path test for two effective intervals, half-open with an
  unset end reaching to infinity:
  \<^verbatim>\<open>new.from < existing.until_or_inf AND existing.from < new.until_or_inf\<close>.
\<close>

definition spec_intervals_intersect ::
    "date \<Rightarrow> date option \<Rightarrow> date \<Rightarrow> date option \<Rightarrow> bool" where
  "spec_intervals_intersect new_from new_until existing_from existing_until \<longleftrightarrow>
     (case existing_until of None \<Rightarrow> True | Some eu \<Rightarrow> new_from < eu)
     \<and> (case new_until of None \<Rightarrow> True | Some nu \<Rightarrow> existing_from < nu)"

text \<open>
  The specification's fourth scenario: the regular contribution rules A, from 2025-01-01
  to 2025-06-30, and B, from 2025-07-01 with no end.
\<close>

definition scenario_rule_a :: ContributionRule where
  "scenario_rule_a =
     \<lparr> pk_cr = 1, stokvel_cr = 1, name_cr = ''Rule A'', contribution_type = ''regular'',
       amount_cr = 200, frequency = ''monthly'', effective_from_cr = (2025, 1, 1),
       effective_until_cr = Some (2025, 6, 30), is_active_cr = True, is_mandatory = True \<rparr>"

definition scenario_rule_b :: ContributionRule where
  "scenario_rule_b =
     \<lparr> pk_cr = 2, stokvel_cr = 1, name_cr = ''Rule B'', contribution_type = ''regular'',
       amount_cr = 250, frequency = ''monthly'', effective_from_cr = (2025, 7, 1),
       effective_until_cr = None, is_active_cr = True, is_mandatory = True \<rparr>"

subsection \<open>\<^verbatim>\<open>stokvel/models.py\<close>: \<^verbatim>\<open>StokvelBankAccount\<close>\<close>

text \<open>
  A model instance is a copy of a row: changing a field of an instance changes the table
  only when the instance is saved. Every query (\<^verbatim>\<open>first()\<close> included) builds fresh
  instances from the table.
\<close>

record StokvelBankAccount =
  pk_ba :: nat
  stokvel_ba :: stokvel_id
  bank_name :: string
  account_name :: string
  account_number :: string
  branch_code :: string
  account_type :: string
  is_primary :: bool
  is_active_ba :: bool

text \<open>
  \<^verbatim>\<open>Model.save\<close>: the row with the instance's key is overwritten, or the instance is
  inserted when the table has no such row.
\<close>

definition model_save :: "StokvelBankAccount \<Rightarrow> StokvelBankAccount list \<Rightarrow> StokvelBankAccount list" where
  "model_save self table =
     (if pk_ba self \<in> set (map pk_ba table)
      then map (\<lambda>r. if pk_ba r = pk_ba self then self else r) table
      else table @ [self])"

text \<open>
  \<^verbatim>\<open>filter(stokvel=..., is_primary=True).exclude(pk=...).update(is_primary=False)\<close>, the
  statement shared by \<^verbatim>\<open>StokvelBankAccount.save\<close> and \<^verbatim>\<open>set_primary_account\<close>.
\<close>

definition clear_other_primaries ::
    "StokvelBankAccount \<Rightarrow> StokvelBankAccount list \<Rightarrow> StokvelBankAccount list" where
  "clear_other_primaries self table =
     map (\<lambda>r. if stokvel_ba r = stokvel_ba self \<and> is_primary r \<and> pk_ba r \<noteq> pk_ba self
               then r\<lparr>is_primary := False\<rparr> else r) table"

text \<open>\<^verbatim>\<open>StokvelBankAccount.save\<close>\<close>

definition save_bank_account ::
    "StokvelBankAccount \<Rightarrow> StokvelBankAccount list \<Rightarrow> StokvelBankAccount list" where
  "save_bank_account self table =
     model_save self (if is_primary self then clear_other_primaries self table else table)"

text \<open>
  \<^verbatim>\<open>QuerySet.first()\<close> on bank accounts: the model has no \<^verbatim>\<open>Meta.ordering\<close>, so the
  rows are ordered by primary key.
\<close>

definition first_bank_account :: "StokvelBankAccount list \<Rightarrow> StokvelBankAccount option" where
  "first_bank_account rows =
     (case sort_key pk_ba rows of [] \<Rightarrow> None | r # _ \<Rightarrow> Some r)"

subsection \<open>\<^verbatim>\<open>stokvel/services.py\<close>: \<^verbatim>\<open>BankAccountService\<close>\<close>

text \<open>The characters \<^verbatim>\<open>str.strip()\<close> removes, among the ASCII characters.\<close>

definition is_whitespace :: "char \<Rightarrow> bool" where
  "is_whitespace c \<longleftrightarrow>
     c \<in> set [CHR '' '', CHR 0x09, CHR 0x0A, CHR 0x0B, CHR 0x0C, CHR 0x0D,
               CHR 0x1C, CHR 0x1D, CHR 0x1E, CHR 0x1F]"

text \<open>
  \<^verbatim>\<open>add_bank_account\<close>. \<^verbatim>\<open>objects.create\<close> saves the new instance through
  \<^verbatim>\<open>StokvelBankAccount.save\<close>; the instance has no key until it is inserted, so the
  exclusion in \<^verbatim>\<open>save\<close> leaves out no row, as it does for the fresh key given here.
\<close>

definition add_bank_account ::
    "StokvelBankAccount list \<Rightarrow> stokvel_id \<Rightarrow> string \<Rightarrow> string \<Rightarrow> string \<Rightarrow> string \<Rightarrow> string
       \<Rightarrow> bool \<Rightarrow> error + (StokvelBankAccount \<times> StokvelBankAccount list)" where
  "add_bank_account table stokvel_arg bank_name_arg account_name_arg account_number_arg
       branch_code_arg account_type_arg is_primary_arg =
     (if filter (\<lambda>c. \<not> is_whitespace c) account_number_arg = []
      then Inl (ValidationError ''Account number is required'')
      else if filter (\<lambda>r. bank_name r = bank_name_arg \<and> account_number r = account_number_arg)
                table \<noteq> []
      then Inl (ValidationError ''Bank account already exists'')
      else
        (let is_primary_arg =
               (if filter (\<lambda>r. stokvel_ba r = stokvel_arg \<and> is_active_ba r) table = []
                then True else is_primary_arg);
             account = \<lparr> pk_ba = next_pk (map pk_ba table), stokvel_ba = stokvel_arg,
                         bank_name = bank_name_arg, account_name = account_name_arg,
                         account_number = account_number_arg, branch_code = branch_code_arg,
                         account_type = account_type_arg, is_primary = is_primary_arg,
                         is_active_ba = True \<rparr>
         in Inr (account, save_bank_account account table)))"

definition set_primary_account ::
    "StokvelBankAccount \<Rightarrow> StokvelBankAccount list
       \<Rightarrow> StokvelBankAccount \<times> StokvelBankAccount list" where
  "set_primary_account account table =
     (let table = clear_other_primaries account table;
          account = account\<lparr>is_primary := True\<rparr>
      in (account, save_bank_account account table))"

text \<open>
  \<^verbatim>\<open>deactivate_account\<close>. The two statements
  \<^verbatim>\<open>other_accounts.first().is_primary = True\<close> and \<^verbatim>\<open>other_accounts.first().save()\<close>
  run the query twice: the first instance gets the flag and is dropped, the second is
  saved as it was read. (\<^verbatim>\<open>first()\<close> returning \<^verbatim>\<open>None\<close> would raise
  \<^verbatim>\<open>AttributeError\<close>.)
\<close>

definition deactivate_account ::
    "StokvelBankAccount \<Rightarrow> StokvelBankAccount list
       \<Rightarrow> error + (StokvelBankAccount \<times> StokvelBankAccount list)" where
  "deactivate_account account table =
     (let other_accounts =
            filter (\<lambda>r. stokvel_ba r = stokvel_ba account \<and> is_active_ba r
                         \<and> pk_ba r \<noteq> pk_ba account);
          promoted =
            (if is_primary account \<and> other_accounts table \<noteq> []
             then (case first_bank_account (other_accounts table) of
                     None \<Rightarrow> Inl AttributeError
                   | Some first_instance \<Rightarrow>
                       (let first_instance = first_instance\<lparr>is_primary := True\<rparr>
                        in (case first_bank_account (other_accounts table) of
                              None \<Rightarrow> Inl AttributeError
                            | Some second_instance \<Rightarrow>
                                Inr (save_bank_account second_instance table))))
             else Inr table)
      in (case promoted of
            Inl e \<Rightarrow> Inl e
          | Inr table \<Rightarrow>
              (let account = account\<lparr>is_active_ba := False, is_primary := False\<rparr>
               in Inr (account, save_bank_account account table))))"

text \<open>The active accounts of a stokvel that are flagged primary.\<close>

definition active_primary_accounts ::
    "stokvel_id \<Rightarrow> StokvelBankAccount list \<Rightarrow> StokvelBankAccount list" where
  "active_primary_accounts s table =
     filter (\<lambda>r. stokvel_ba r = s \<and> is_active_ba r \<and> is_primary r) table"

text \<open>Two active accounts of stokvel 1, the first of them primary.\<close>

definition scenario_account_one :: StokvelBankAccount where
  "scenario_account_one =
     \<lparr> pk_ba = 1, stokvel_ba = 1, bank_name = ''FNB'', account_name = ''Savings club'',
       account_number = ''62000000001'', branch_code = ''250655'', account_type = ''savings'',
       is_primary = True, is_active_ba = True \<rparr>"

definition scenario_account_two :: StokvelBankAccount where
  "scenario_account_two =
     \<lparr> pk_ba = 2, stokvel_ba = 1, bank_name = ''Capitec'', account_name = ''Savings club'',
       account_number = ''1400000002'', branch_code = ''470010'', account_type = ''savings'',
       is_primary = False, is_active_ba = True \<rparr>"

section \<open>Theorems\<close>

subsection \<open>Due dates\<close>

lemma get_month_end_date_valid:
  assumes "1 \<le> year" "year \<le> 9999" "1 \<le> month" "month \<le> 12"
  shows "get_month_end_date year month =
           Inr (year, month, mdays month + (if month = 2 \<and> isleap year then 1 else 0))"
  using assms by (simp add: get_month_end_date_def monthrange_ndays_def mk_date_def mdays_def)

lemma due_date_sentinel:
  "get_due_date_for_month year month 31 = get_month_end_date year month"
  by (simp add: get_due_date_for_month_def)

lemma due_date_february_2024: "get_due_date_for_month 2024 2 31 = Inr (2024, 2, 29)"
  by (simp add: get_due_date_for_month_def get_month_end_date_def monthrange_ndays_def
      mk_date_def mdays_def isleap_def)

lemma due_date_february_2023: "get_due_date_for_month 2023 2 31 = Inr (2023, 2, 28)"
  by (simp add: get_due_date_for_month_def get_month_end_date_def monthrange_ndays_def
      mk_date_def mdays_def isleap_def)

lemma due_date_general:
  assumes y: "1 \<le> year" "year \<le> 9999"
    and n: "monthrange_ndays year month = Inr ndays"
  shows "get_month_end_date year month = Inr (year, month, ndays)
     \<and> (ndays \<le> due_day \<longrightarrow>
           get_due_date_for_month year month due_day = get_month_end_date year month)
     \<and> (1 \<le> due_day \<and> due_day < ndays \<longrightarrow>
           get_due_date_for_month year month due_day = Inr (year, month, due_day))"
proof -
  from n have m: "1 \<le> month" "month \<le> 12"
    and nd: "ndays = mdays month + (if month = 2 \<and> isleap year then 1 else 0)"
    by (auto simp: monthrange_ndays_def split: if_splits)
  have pos: "1 \<le> ndays"
    using nd by (simp add: mdays_def)
  have top: "ndays \<le> 31"
    using nd by (simp add: mdays_def)
  have last: "mk_date year month ndays = Inr (year, month, ndays)"
    using y m pos nd by (simp add: mk_date_def)
  have end_date: "get_month_end_date year month = Inr (year, month, ndays)"
    using n last by (simp add: get_month_end_date_def)
  have clamp: "get_due_date_for_month year month due_day = get_month_end_date year month"
    if "ndays \<le> due_day"
    using that n end_date last
    by (simp add: get_due_date_for_month_def min_def)
  have inside: "get_due_date_for_month year month due_day = Inr (year, month, due_day)"
    if "1 \<le> due_day" "due_day < ndays"
  proof -
    have "due_day \<noteq> 31" using that top by simp
    moreover have "mk_date year month due_day = Inr (year, month, due_day)"
      using y m that nd by (simp add: mk_date_def)
    ultimately show ?thesis
      using that n by (simp add: get_due_date_for_month_def min_def)
  qed
  from end_date clamp inside show ?thesis by simp
qed

text \<open>
  Claim C6. With the sentinel due day 31 the due date is the month's last day, for every
  year and month (an invalid year or month raises the same exception on both sides); in
  particular 2024-02-29 and 2023-02-28 for February 2024 and 2023. For a valid year and
  month, a due day at or past the month's length is clamped to the month end, and a due
  day from 1 up to the month's length is the day of the result.
\<close>

theorem due_date_clamps_to_month_end:
  "get_due_date_for_month year month 31 = get_month_end_date year month
   \<and> get_due_date_for_month 2024 2 31 = Inr (2024, 2, 29)
   \<and> get_due_date_for_month 2023 2 31 = Inr (2023, 2, 28)
   \<and> (1 \<le> year \<and> year \<le> 9999 \<and> monthrange_ndays year month = Inr ndays \<longrightarrow>
        get_month_end_date year month = Inr (year, month, ndays)
        \<and> (ndays \<le> due_day \<longrightarrow>
              get_due_date_for_month year month due_day = get_month_end_date year month)
        \<and> (1 \<le> due_day \<and> due_day < ndays \<longrightarrow>
              get_due_date_for_month year month due_day = Inr (year, month, due_day)))"
proof (intro conjI)
  show "get_due_date_for_month year month 31 = get_month_end_date year month"
    by (rule due_date_sentinel)
  show "get_due_date_for_month 2024 2 31 = Inr (2024, 2, 29)"
    by (rule due_date_february_2024)
  show "get_due_date_for_month 2023 2 31 = Inr (2023, 2, 28)"
    by (rule due_date_february_2023)
  show "1 \<le> year \<and> year \<le> 9999 \<and> monthrange_ndays year month = Inr ndays \<longrightarrow>
        get_month_end_date year month = Inr (year, month, ndays)
        \<and> (ndays \<le> due_day \<longrightarrow>
              get_due_date_for_month year month due_day = get_month_end_date year month)
        \<and> (1 \<le> due_day \<and> due_day < ndays \<longrightarrow>
              get_due_date_for_month year month due_day = Inr (year, month, due_day))"
  proof
    assume h: "1 \<le> year \<and> year \<le> 9999 \<and> monthrange_ndays year month = Inr ndays"
    then have "1 \<le> year" "year \<le> 9999" "monthrange_ndays year month = Inr ndays"
      by simp_all
    then show "get_month_end_date year month = Inr (year, month, ndays)
        \<and> (ndays \<le> due_day \<longrightarrow>
              get_due_date_for_month year month due_day = get_month_end_date year month)
        \<and> (1 \<le> due_day \<and> due_day < ndays \<longrightarrow>
              get_due_date_for_month year month due_day = Inr (year, month, due_day))"
      by (rule due_date_general)
  qed
qed

theorem due_date_clamps_to_month_end_witness:
  "get_due_date_for_month 2024 4 30 = get_month_end_date 2024 4
   \<and> get_month_end_date 2024 4 = Inr (2024, 4, 30)
   \<and> get_due_date_for_month 2023 2 30 = Inr (2023, 2, 28)
   \<and> get_due_date_for_month 2024 4 15 = Inr (2024, 4, 15)"
proof -
  have april: "monthrange_ndays 2024 4 = Inr 30"
    by (simp add: monthrange_ndays_def mdays_def)
  have february: "monthrange_ndays 2023 2 = Inr 28"
    by (simp add: monthrange_ndays_def mdays_def isleap_def)
  have a: "get_month_end_date 2024 4 = Inr (2024, 4, 30)"
    and b: "get_due_date_for_month 2024 4 30 = get_month_end_date 2024 4"
    using due_date_clamps_to_month_end [of 2024 4 30 30] april by simp_all
  have c: "get_due_date_for_month 2023 2 30 = get_month_end_date 2023 2"
    and c': "get_month_end_date 2023 2 = Inr (2023, 2, 28)"
    using due_date_clamps_to_month_end [of 2023 2 28 30] february by simp_all
  have d: "get_due_date_for_month 2024 4 15 = Inr (2024, 4, 15)"
    using due_date_clamps_to_month_end [of 2024 4 30 15] april by simp
  from a b c c' d show ?thesis by simp
qed

subsection \<open>Penalty calculation\<close>

text \<open>
  Claim C2. A delay within the grace period costs nothing, whatever the calculation
  method, the base amount and the cap.
\<close>

theorem grace_period_absorbs_delay:
  "days_late \<le> grace_period_days rule \<Longrightarrow> calculate_penalty rule base_amount days_late = 0"
  by (simp add: calculate_penalty_def)

theorem grace_period_absorbs_delay_witness:
  "(3::int) \<le> grace_period_days (scenario_daily_rule (Some 1000))
   \<and> calculate_penalty (scenario_daily_rule (Some 1000)) 200 3 = 0"
proof -
  have within: "(3::int) \<le> grace_period_days (scenario_daily_rule (Some 1000))"
    by (simp add: scenario_daily_rule_def)
  from within grace_period_absorbs_delay [OF within] show ?thesis by simp
qed

text \<open>
  Claim C9. The \<^verbatim>\<open>tiered\<close> method is the \<^verbatim>\<open>fixed\<close> method: two rules that differ only
  in that choice charge the same penalty for every base amount and delay. What both charge
  is the flat rule amount: nothing within the grace period, and past it the rule's
  \<open>amount\<close>, whatever the base amount and the length of the delay, lowered to the cap
  when a non-zero cap is below it.
\<close>

theorem tiered_is_fixed:
  "calculate_penalty (rule\<lparr>calculation_method := ''tiered''\<rparr>) base_amount days_late
     = calculate_penalty (rule\<lparr>calculation_method := ''fixed''\<rparr>) base_amount days_late
   \<and> calculate_penalty (rule\<lparr>calculation_method := ''tiered''\<rparr>) base_amount days_late
     = (if days_late \<le> grace_period_days rule then 0
        else (case maximum_amount rule of
                None \<Rightarrow> amount rule
              | Some m \<Rightarrow> if m \<noteq> 0 \<and> m < amount rule then m else amount rule))"
proof (rule conjI)
  show "calculate_penalty (rule\<lparr>calculation_method := ''tiered''\<rparr>) base_amount days_late
     = calculate_penalty (rule\<lparr>calculation_method := ''fixed''\<rparr>) base_amount days_late"
    by (simp add: calculate_penalty_def)
  show "calculate_penalty (rule\<lparr>calculation_method := ''tiered''\<rparr>) base_amount days_late
     = (if days_late \<le> grace_period_days rule then 0
        else (case maximum_amount rule of
                None \<Rightarrow> amount rule
              | Some m \<Rightarrow> if m \<noteq> 0 \<and> m < amount rule then m else amount rule))"
    by (simp add: calculate_penalty_def split: option.split)
qed

theorem tiered_is_fixed_witness:
  "calculate_penalty ((scenario_fixed_rule None)\<lparr>calculation_method := ''tiered''\<rparr>) 200 3 = 50
   \<and> calculate_penalty ((scenario_fixed_rule None)\<lparr>calculation_method := ''fixed''\<rparr>) 200 3 = 50
   \<and> calculate_penalty ((scenario_fixed_rule (Some 20))\<lparr>calculation_method := ''tiered''\<rparr>)
         200 3 = 20"
proof -
  note flat = tiered_is_fixed [of "scenario_fixed_rule None" 200 3]
  note capped = tiered_is_fixed [of "scenario_fixed_rule (Some 20)" 200 3]
  have a: "calculate_penalty ((scenario_fixed_rule None)\<lparr>calculation_method := ''tiered''\<rparr>)
      200 3 = 50"
    using flat [THEN conjunct2] by (simp add: scenario_fixed_rule_def)
  have b: "calculate_penalty ((scenario_fixed_rule None)\<lparr>calculation_method := ''fixed''\<rparr>)
      200 3 = 50"
    using flat [THEN conjunct1] a by simp
  have c: "calculate_penalty
      ((scenario_fixed_rule (Some 20))\<lparr>calculation_method := ''tiered''\<rparr>) 200 3 = 20"
    using capped [THEN conjunct2] by (simp add: scenario_fixed_rule_def)
  from a b c show ?thesis by (intro conjI)
qed

lemma daily_penalty_general:
  assumes "calculation_method rule = ''daily''" "grace_period_days rule < days_late"
  shows "calculate_penalty rule base_amount days_late =
       (case maximum_amount rule of
          None \<Rightarrow> amount rule * of_int (days_late - grace_period_days rule)
        | Some m \<Rightarrow>
            if m = 0 then amount rule * of_int (days_late - grace_period_days rule)
            else min (amount rule * of_int (days_late - grace_period_days rule)) m)"
  using assms by (simp add: calculate_penalty_def min_def split: option.split)

lemma scenario_daily_values:
  "calculate_penalty (scenario_daily_rule None) base_amount 3 = 0"
  "calculate_penalty (scenario_daily_rule None) base_amount 10 = 2500"
  "calculate_penalty (scenario_daily_rule (Some 1000)) base_amount 10 = 1000"
  by (simp_all add: calculate_penalty_def scenario_daily_rule_def)

text \<open>
  Claim C3, as the code has it. Past the grace period a \<^verbatim>\<open>daily\<close> rule charges its
  amount for every day beyond the grace period; the result is clamped to
  \<^verbatim>\<open>maximum_amount\<close> when that is set to a non-zero amount, and a cap of zero counts as no
  cap. For R500 a day and five days of grace: nothing at 3 days, R2500 at 10 days, and
  R1000 at 10 days under a cap of R1000.
\<close>

theorem daily_penalty_accrues_and_caps:
  "(calculation_method rule = ''daily'' \<and> grace_period_days rule < days_late \<longrightarrow>
     calculate_penalty rule base_amount days_late =
       (case maximum_amount rule of
          None \<Rightarrow> amount rule * of_int (days_late - grace_period_days rule)
        | Some m \<Rightarrow>
            if m = 0 then amount rule * of_int (days_late - grace_period_days rule)
            else min (amount rule * of_int (days_late - grace_period_days rule)) m))
   \<and> calculate_penalty (scenario_daily_rule None) base_amount 3 = 0
   \<and> calculate_penalty (scenario_daily_rule None) base_amount 10 = 2500
   \<and> calculate_penalty (scenario_daily_rule (Some 1000)) base_amount 10 = 1000"
  using daily_penalty_general [of rule days_late base_amount]
    scenario_daily_values [of base_amount]
  by (intro conjI impI) (elim conjE, assumption+)

theorem daily_penalty_accrues_and_caps_witness:
  "calculation_method (scenario_daily_rule (Some 300)) = ''daily''
   \<and> grace_period_days (scenario_daily_rule (Some 300)) < 7
   \<and> calculate_penalty (scenario_daily_rule (Some 300)) 200 7 = 300
   \<and> calculate_penalty (scenario_daily_rule None) 200 7 = 1000"
proof -
  have capped: "calculation_method (scenario_daily_rule (Some 300)) = ''daily''
      \<and> grace_period_days (scenario_daily_rule (Some 300)) < 7"
    by (simp add: scenario_daily_rule_def)
  have uncapped: "calculation_method (scenario_daily_rule None) = ''daily''
      \<and> grace_period_days (scenario_daily_rule None) < 7"
    by (simp add: scenario_daily_rule_def)
  have "calculate_penalty (scenario_daily_rule (Some 300)) 200 7 = 300"
    using daily_penalty_accrues_and_caps [of "scenario_daily_rule (Some 300)" 7 200] capped
    by (simp add: scenario_daily_rule_def)
  moreover have "calculate_penalty (scenario_daily_rule None) 200 7 = 1000"
    using daily_penalty_accrues_and_caps [of "scenario_daily_rule None" 7 200] uncapped
    by (simp add: scenario_daily_rule_def)
  ultimately show ?thesis using capped by simp
qed

text \<open>
  Claim C3 as stated fails when the cap is set to zero: the claim asks for the accrued
  amount clamped to the cap, which is 0, and the code returns the accrued R2500.
\<close>

theorem daily_penalty_zero_cap_counterexample:
  "calculation_method (scenario_daily_rule (Some 0)) = ''daily''
   \<and> grace_period_days (scenario_daily_rule (Some 0)) < 10
   \<and> maximum_amount (scenario_daily_rule (Some 0)) = Some 0
   \<and> calculate_penalty (scenario_daily_rule (Some 0)) 200 10 = 2500
   \<and> min (amount (scenario_daily_rule (Some 0))
            * of_int (10 - grace_period_days (scenario_daily_rule (Some 0)))) 0 = (0::rat)"
  by (simp add: calculate_penalty_def scenario_daily_rule_def)

lemma penalty_le_positive_cap:
  assumes "maximum_amount rule = Some m" "0 < m"
  shows "calculate_penalty rule base_amount days_late \<le> m"
  using assms by (simp add: calculate_penalty_def Let_def)

lemma penalty_le_nonzero_cap_past_grace:
  assumes "maximum_amount rule = Some m" "m \<noteq> 0" "grace_period_days rule < days_late"
  shows "calculate_penalty rule base_amount days_late \<le> m"
  using assms by (simp add: calculate_penalty_def Let_def)

text \<open>
  Claim C4, as the code has it. A positive cap is never exceeded, for any base amount and
  delay; any non-zero cap is never exceeded once the delay is past the grace period.
\<close>

theorem penalty_never_exceeds_cap:
  "maximum_amount rule = Some m \<Longrightarrow>
     (0 < m \<longrightarrow> calculate_penalty rule base_amount days_late \<le> m)
     \<and> (m \<noteq> 0 \<and> grace_period_days rule < days_late \<longrightarrow>
           calculate_penalty rule base_amount days_late \<le> m)"
  using penalty_le_positive_cap penalty_le_nonzero_cap_past_grace by blast

theorem penalty_never_exceeds_cap_witness:
  "maximum_amount (scenario_fixed_rule (Some 20)) = Some 20
   \<and> calculate_penalty (scenario_fixed_rule (Some 20)) 200 3 \<le> 20
   \<and> calculate_penalty (scenario_fixed_rule (Some 20)) 200 3 = 20"
proof -
  have cap: "maximum_amount (scenario_fixed_rule (Some 20)) = Some 20"
    by (simp add: scenario_fixed_rule_def)
  have late: "grace_period_days (scenario_fixed_rule (Some 20)) < 3"
    by (simp add: scenario_fixed_rule_def)
  have "calculate_penalty (scenario_fixed_rule (Some 20)) 200 3 \<le> 20"
    using penalty_never_exceeds_cap [OF cap, of 200 3] late by simp
  moreover have "calculate_penalty (scenario_fixed_rule (Some 20)) 200 3 = 20"
    by (simp add: calculate_penalty_def scenario_fixed_rule_def)
  ultimately show ?thesis using cap by simp
qed

text \<open>
  Claim C4 as stated fails for a cap that is set to zero: the truth test on
  \<^verbatim>\<open>maximum_amount\<close> skips the clamp and the flat R50 is charged.
\<close>

theorem penalty_exceeds_zero_cap_counterexample:
  "maximum_amount (scenario_fixed_rule (Some 0)) = Some 0
   \<and> calculate_penalty (scenario_fixed_rule (Some 0)) 200 1 = 50
   \<and> \<not> calculate_penalty (scenario_fixed_rule (Some 0)) 200 1 \<le> 0"
  by (simp add: calculate_penalty_def scenario_fixed_rule_def)

subsection \<open>Collection rates\<close>

lemma collection_percentage_eq:
  "collection_percentage members contributions self =
     (if 0 < total_expected_amount members self
      then Inr (total_received_amount contributions self / total_expected_amount members self * 100)
      else Inr 0)"
  by (simp add: collection_percentage_def decimal_div_def Let_def)

lemma collection_percentage_zero_iff:
  "collection_percentage members contributions self = Inr 0
     \<longleftrightarrow> total_expected_amount members self \<le> 0
          \<or> total_received_amount contributions self = 0"
  by (auto simp: collection_percentage_eq)

lemma contribution_statistics_rate:
  "\<exists>stats. calculate_contribution_statistics today members contributions payment_periods
              stokvel_arg start_date end_date = Inr stats
     \<and> collection_rate stats =
         (if 0 < total_expected stats
          then round_decimal (total_received stats / total_expected stats * 100) 2
          else 0)"
  by (simp add: calculate_contribution_statistics_def decimal_div_def Let_def)

lemma scenario_expected: "total_expected_amount scenario_members scenario_period = 2000"
  by (simp add: total_expected_amount_def scenario_members_def scenario_period_def)

lemma scenario_received: "total_received_amount scenario_contributions scenario_period = 1400"
  by (simp add: total_received_amount_def scenario_contributions_def scenario_period_def
      aggregate_sum_def sum_list_replicate)

lemma scenario_nothing_received: "total_received_amount [] scenario_period = 0"
  by (simp add: total_received_amount_def aggregate_sum_def)


text \<open>
  Claim C7, as the code has it. For every payment period the collection percentage is
  received / expected * 100 when the expected total is positive and 0 when the expected
  total is 0; it is always a value, never an exception. It is 0 whenever the expected
  total is not positive or nothing was received, and only then. The stokvel-level
  collection rate has the same guard: the statistics are always returned, with the rate 0
  unless the expected total is positive.
\<close>

theorem collection_rates_guard_zero_expected:
  "(0 < total_expected_amount members self \<longrightarrow>
      collection_percentage members contributions self =
        Inr (total_received_amount contributions self
               / total_expected_amount members self * 100))
   \<and> (total_expected_amount members self = 0 \<longrightarrow>
         collection_percentage members contributions self = Inr 0)
   \<and> (\<exists>v. collection_percentage members contributions self = Inr v)
   \<and> (collection_percentage members contributions self = Inr 0
         \<longleftrightarrow> total_expected_amount members self \<le> 0
              \<or> total_received_amount contributions self = 0)
   \<and> (\<exists>stats. calculate_contribution_statistics today members contributions payment_periods
                  stokvel_arg start_date end_date = Inr stats
         \<and> collection_rate stats =
             (if 0 < total_expected stats
              then round_decimal (total_received stats / total_expected stats * 100) 2
              else 0))"
proof (intro conjI)
  show "0 < total_expected_amount members self \<longrightarrow>
      collection_percentage members contributions self =
        Inr (total_received_amount contributions self
               / total_expected_amount members self * 100)"
    by (simp add: collection_percentage_eq)
  show "total_expected_amount members self = 0 \<longrightarrow>
         collection_percentage members contributions self = Inr 0"
    by (simp add: collection_percentage_eq)
  show "\<exists>v. collection_percentage members contributions self = Inr v"
    by (simp add: collection_percentage_eq)
  show "collection_percentage members contributions self = Inr 0
         \<longleftrightarrow> total_expected_amount members self \<le> 0
              \<or> total_received_amount contributions self = 0"
    by (rule collection_percentage_zero_iff)
  show "\<exists>stats. calculate_contribution_statistics today members contributions payment_periods
                  stokvel_arg start_date end_date = Inr stats
         \<and> collection_rate stats =
             (if 0 < total_expected stats
              then round_decimal (total_received stats / total_expected stats * 100) 2
              else 0)"
    by (rule contribution_statistics_rate)
qed

theorem collection_rates_guard_zero_expected_witness:
  "0 < total_expected_amount scenario_members scenario_period
   \<and> collection_percentage scenario_members scenario_contributions scenario_period = Inr 70
   \<and> total_expected_amount [] scenario_period = 0
   \<and> collection_percentage [] scenario_contributions scenario_period = Inr 0"
proof -
  have none: "total_expected_amount [] scenario_period = 0"
    by (simp add: total_expected_amount_def)
  have "collection_percentage scenario_members scenario_contributions scenario_period = Inr 70"
    using collection_rates_guard_zero_expected
      [of scenario_members scenario_period scenario_contributions]
    by (simp add: scenario_expected scenario_received)
  moreover have "collection_percentage [] scenario_contributions scenario_period = Inr 0"
    using collection_rates_guard_zero_expected [of "[]" scenario_period scenario_contributions]
      none
    by simp
  ultimately show ?thesis
    using none by (simp add: scenario_expected)
qed

text \<open>
  Claim C7 as stated has the percentage equal to 0 exactly when the expected total is 0.
  A period with ten active members and no verified payment yet has a positive expected
  total and a percentage of 0.
\<close>

theorem collection_percentage_zero_counterexample:
  "total_expected_amount scenario_members scenario_period = 2000
   \<and> collection_percentage scenario_members [] scenario_period = Inr 0"
  by (simp add: collection_percentage_eq scenario_expected scenario_nothing_received)

subsection \<open>Resolving the applicable penalty rule\<close>

lemma first_penalty_rule_None_iff: "first_penalty_rule rows = None \<longleftrightarrow> rows = []"
proof -
  have "sort_key (\<lambda>r. (stokvel r, penalty_type r)) rows = [] \<longleftrightarrow> rows = []"
    by (metis set_sort set_empty)
  then show ?thesis
    by (cases "sort_key (\<lambda>r. (stokvel r, penalty_type r)) rows")
      (auto simp: first_penalty_rule_def)
qed

lemma first_penalty_rule_mem:
  assumes "first_penalty_rule rows = Some r"
  shows "r \<in> set rows"
proof -
  from assms obtain rest where "sort_key (\<lambda>r. (stokvel r, penalty_type r)) rows = r # rest"
    by (auto simp: first_penalty_rule_def split: list.splits)
  then have "r \<in> set (sort_key (\<lambda>r. (stokvel r, penalty_type r)) rows)"
    by simp
  then show ?thesis by simp
qed

lemma sort_key_constant:
  assumes "\<And>x. x \<in> set xs \<Longrightarrow> f x = k"
  shows "sort_key f xs = xs"
  using assms
proof (induction xs)
  case Nil
  then show ?case by simp
next
  case (Cons x xs)
  then have tail: "sort_key f xs = xs" by simp
  show ?case
  proof (cases xs)
    case Nil
    then show ?thesis by simp
  next
    case (Cons y ys)
    with Cons.prems have "f x = f y" by simp
    with tail Cons show ?thesis by simp
  qed
qed

lemma first_penalty_rule_same_key:
  assumes "\<And>r. r \<in> set rows \<Longrightarrow> stokvel r = s \<and> penalty_type r = t"
  shows "first_penalty_rule rows = (case rows of [] \<Rightarrow> None | r # _ \<Rightarrow> Some r)"
proof -
  have "sort_key (\<lambda>r. (stokvel r, penalty_type r)) rows = rows"
    by (rule sort_key_constant [where k = "(s, t)"]) (simp add: assms)
  then show ?thesis by (simp add: first_penalty_rule_def)
qed

lemma is_active_for_date_iff:
  "is_active_for_date r d \<longleftrightarrow>
     is_active r \<and> effective_from r \<le> d
       \<and> (effective_until r = None \<or> lookup_gte (effective_until r) d)"
  by (auto simp: is_active_for_date_def lookup_gte_def split: option.splits)


lemma find_filter: "List.find P xs = (case filter P xs of [] \<Rightarrow> None | x # _ \<Rightarrow> Some x)"
  by (induction xs) simp_all

lemma get_applicable_penalty_rules_find:
  "get_applicable_penalty_rules today penalty_rules s t as_of_date =
     (case List.find (\<lambda>r. stokvel r = s \<and> penalty_type r = t
                          \<and> is_active_for_date r (or_today today as_of_date)
                          \<and> effective_until r \<noteq> None) penalty_rules of
        Some r \<Rightarrow> Some r
      | None \<Rightarrow>
          List.find (\<lambda>r. stokvel r = s \<and> penalty_type r = t
                         \<and> is_active_for_date r (or_today today as_of_date)
                         \<and> effective_until r = None) penalty_rules)"
proof -
  let ?d = "or_today today as_of_date"
  let ?closed = "\<lambda>r. stokvel r = s \<and> penalty_type r = t \<and> is_active r
                    \<and> effective_from r \<le> ?d \<and> lookup_gte (effective_until r) ?d"
  let ?open = "\<lambda>r. stokvel r = s \<and> penalty_type r = t \<and> is_active r
                  \<and> effective_from r \<le> ?d \<and> effective_until r = None"
  have "first_penalty_rule (filter ?closed penalty_rules) =
          (case filter ?closed penalty_rules of [] \<Rightarrow> None | r # _ \<Rightarrow> Some r)"
    by (rule first_penalty_rule_same_key [where s = s and t = t]) simp
  then have closed:
    "first_penalty_rule (filter ?closed penalty_rules) = List.find ?closed penalty_rules"
    by (simp only: find_filter)
  have "first_penalty_rule (filter ?open penalty_rules) =
          (case filter ?open penalty_rules of [] \<Rightarrow> None | r # _ \<Rightarrow> Some r)"
    by (rule first_penalty_rule_same_key [where s = s and t = t]) simp
  then have "open":
    "first_penalty_rule (filter ?open penalty_rules) = List.find ?open penalty_rules"
    by (simp only: find_filter)
  have c: "?closed = (\<lambda>r. stokvel r = s \<and> penalty_type r = t \<and> is_active_for_date r ?d
                         \<and> effective_until r \<noteq> None)"
    by (rule ext) (auto simp: is_active_for_date_iff lookup_gte_def split: option.splits)
  have o: "?open = (\<lambda>r. stokvel r = s \<and> penalty_type r = t \<and> is_active_for_date r ?d
                       \<and> effective_until r = None)"
    by (rule ext) (auto simp: is_active_for_date_iff)
  have "get_applicable_penalty_rules today penalty_rules s t as_of_date =
          (case List.find ?closed penalty_rules of
             Some r \<Rightarrow> Some r
           | None \<Rightarrow> List.find ?open penalty_rules)"
    unfolding get_applicable_penalty_rules_def Let_def closed "open" ..
  then show ?thesis
    unfolding c o .
qed


lemma find_SomeD: "List.find P xs = Some x \<Longrightarrow> x \<in> set xs \<and> P x"
  by (induction xs) (auto split: if_splits)

text \<open>
  Claim C5, as the code has it. For every stokvel, penalty category and as-of date (today
  when none is given) the resolver returns \<open>None\<close> exactly when no rule of that stokvel
  and category is in force on the date, and otherwise a rule of the table that is in
  force on the date (active, \<open>effective_from\<close> not after it, \<open>effective_until\<close> unset or
  not before it). When several rules are in force it returns the first one, in the
  table's order, among those with an end date, and only when there is none the first one
  among the open-ended rules; \<open>effective_from\<close> plays no part in the choice.
\<close>

theorem applicable_penalty_rule_resolution:
  "(get_applicable_penalty_rules today penalty_rules s t as_of_date = None
      \<longleftrightarrow> \<not> (\<exists>r \<in> set penalty_rules. stokvel r = s \<and> penalty_type r = t
                 \<and> is_active_for_date r (or_today today as_of_date)))
   \<and> (\<forall>r. get_applicable_penalty_rules today penalty_rules s t as_of_date = Some r \<longrightarrow>
          r \<in> set penalty_rules \<and> stokvel r = s \<and> penalty_type r = t
          \<and> is_active_for_date r (or_today today as_of_date)
          \<and> ((\<exists>r' \<in> set penalty_rules. stokvel r' = s \<and> penalty_type r' = t
                 \<and> is_active_for_date r' (or_today today as_of_date)
                 \<and> effective_until r' \<noteq> None)
               \<longrightarrow> effective_until r \<noteq> None))
   \<and> get_applicable_penalty_rules today penalty_rules s t as_of_date =
       (case List.find (\<lambda>r. stokvel r = s \<and> penalty_type r = t
                            \<and> is_active_for_date r (or_today today as_of_date)
                            \<and> effective_until r \<noteq> None) penalty_rules of
          Some r \<Rightarrow> Some r
        | None \<Rightarrow>
            List.find (\<lambda>r. stokvel r = s \<and> penalty_type r = t
                           \<and> is_active_for_date r (or_today today as_of_date)
                           \<and> effective_until r = None) penalty_rules)"
proof -
  define closed where "closed = (\<lambda>r. stokvel r = s \<and> penalty_type r = t
      \<and> is_active_for_date r (or_today today as_of_date) \<and> effective_until r \<noteq> None)"
  define opened where "opened = (\<lambda>r. stokvel r = s \<and> penalty_type r = t
      \<and> is_active_for_date r (or_today today as_of_date) \<and> effective_until r = None)"
  define result where
    "result = get_applicable_penalty_rules today penalty_rules s t as_of_date"
  have eq: "result = (case List.find closed penalty_rules of
                        Some r \<Rightarrow> Some r | None \<Rightarrow> List.find opened penalty_rules)"
    unfolding result_def closed_def opened_def by (rule get_applicable_penalty_rules_find)
  have none: "result = None \<longleftrightarrow>
      \<not> (\<exists>r \<in> set penalty_rules. stokvel r = s \<and> penalty_type r = t
             \<and> is_active_for_date r (or_today today as_of_date))"
  proof
    assume "result = None"
    with eq have "List.find closed penalty_rules = None" "List.find opened penalty_rules = None"
      by (auto split: option.splits)
    then have "\<forall>r \<in> set penalty_rules. \<not> closed r \<and> \<not> opened r"
      by (auto simp: find_None_iff)
    then show "\<not> (\<exists>r \<in> set penalty_rules. stokvel r = s \<and> penalty_type r = t
             \<and> is_active_for_date r (or_today today as_of_date))"
      unfolding closed_def opened_def by blast
  next
    assume no: "\<not> (\<exists>r \<in> set penalty_rules. stokvel r = s \<and> penalty_type r = t
             \<and> is_active_for_date r (or_today today as_of_date))"
    then have "List.find closed penalty_rules = None" "List.find opened penalty_rules = None"
      unfolding closed_def opened_def by (auto simp: find_None_iff)
    with eq show "result = None" by simp
  qed
  have some: "r \<in> set penalty_rules \<and> stokvel r = s \<and> penalty_type r = t
          \<and> is_active_for_date r (or_today today as_of_date)
          \<and> ((\<exists>r' \<in> set penalty_rules. stokvel r' = s \<and> penalty_type r' = t
                 \<and> is_active_for_date r' (or_today today as_of_date)
                 \<and> effective_until r' \<noteq> None)
               \<longrightarrow> effective_until r \<noteq> None)"
    if r: "result = Some r" for r
  proof (cases "List.find closed penalty_rules")
    case None
    with eq r have "List.find opened penalty_rules = Some r" by simp
    then have "r \<in> set penalty_rules" "opened r" by (auto dest: find_SomeD)
    moreover from None have "\<forall>r' \<in> set penalty_rules. \<not> closed r'"
      by (auto simp: find_None_iff)
    ultimately show ?thesis
      unfolding closed_def opened_def by blast
  next
    case (Some c)
    with eq r have "c = r" by simp
    with Some have "r \<in> set penalty_rules" "closed r" by (auto dest: find_SomeD)
    then show ?thesis
      unfolding closed_def by blast
  qed
  from none some eq show ?thesis
    unfolding result_def closed_def opened_def by blast
qed

lemma scenario_resolution:
  "get_applicable_penalty_rules (2025, 7, 1) [scenario_older_rule, scenario_newer_rule] 1
     ''late_payment'' (Some (2025, 7, 1)) = Some scenario_older_rule"
  by (simp add: get_applicable_penalty_rules_def first_penalty_rule_def or_today_def
      lookup_gte_def scenario_older_rule_def scenario_newer_rule_def scenario_daily_rule_def
      scenario_fixed_rule_def)


lemma scenario_newer_in_force:
  "stokvel scenario_newer_rule = 1
   \<and> penalty_type scenario_newer_rule = ''late_payment''
   \<and> is_active_for_date scenario_newer_rule (2025, 7, 1)
   \<and> effective_from scenario_older_rule < effective_from scenario_newer_rule"
  by (simp add: is_active_for_date_def scenario_older_rule_def scenario_newer_rule_def
      scenario_daily_rule_def scenario_fixed_rule_def)

text \<open>
  Claim C5 as stated has the resolver return the rule with the latest \<open>effective_from\<close>
  when several are in force. On 2025-07-01 both scenario rules are in force; the resolver
  returns the older one, found by the first query because it has an end date, although
  the newer one started later.
\<close>

theorem latest_effective_from_counterexample:
  "get_applicable_penalty_rules (2025, 7, 1) [scenario_older_rule, scenario_newer_rule] 1
     ''late_payment'' (Some (2025, 7, 1)) = Some scenario_older_rule
   \<and> stokvel scenario_newer_rule = 1
   \<and> penalty_type scenario_newer_rule = ''late_payment''
   \<and> is_active_for_date scenario_newer_rule (2025, 7, 1)
   \<and> effective_from scenario_older_rule < effective_from scenario_newer_rule"
  using scenario_resolution scenario_newer_in_force by (intro conjI) (elim conjE, assumption)+

lemma scenario_no_meeting_rule:
  "\<not> (\<exists>r \<in> set [scenario_older_rule, scenario_newer_rule].
      stokvel r = 1 \<and> penalty_type r = ''missed_meeting''
      \<and> is_active_for_date r (or_today (2025, 7, 1) None))"
  by (simp add: scenario_older_rule_def scenario_newer_rule_def scenario_daily_rule_def
      scenario_fixed_rule_def)


theorem applicable_penalty_rule_resolution_witness:
  "get_applicable_penalty_rules (2025, 7, 1) [scenario_older_rule, scenario_newer_rule] 1
     ''late_payment'' (Some (2025, 7, 1)) = Some scenario_older_rule
   \<and> scenario_older_rule \<in> set [scenario_older_rule, scenario_newer_rule]
   \<and> is_active_for_date scenario_older_rule (or_today (2025, 7, 1) (Some (2025, 7, 1)))
   \<and> get_applicable_penalty_rules (2025, 7, 1) [scenario_older_rule, scenario_newer_rule] 1
        ''missed_meeting'' None = None"
proof -
  note late = applicable_penalty_rule_resolution
      [of "(2025, 7, 1)" "[scenario_older_rule, scenario_newer_rule]" 1 "''late_payment''"
        "Some (2025, 7, 1)"]
  note meeting = applicable_penalty_rule_resolution
      [of "(2025, 7, 1)" "[scenario_older_rule, scenario_newer_rule]" 1 "''missed_meeting''"
        None]
  note chosen =
    late [THEN conjunct2, THEN conjunct1, THEN spec, THEN mp, OF scenario_resolution]
  have found: "scenario_older_rule \<in> set [scenario_older_rule, scenario_newer_rule]"
    by (rule chosen [THEN conjunct1])
  have in_force:
    "is_active_for_date scenario_older_rule (or_today (2025, 7, 1) (Some (2025, 7, 1)))"
    by (rule chosen [THEN conjunct2, THEN conjunct2, THEN conjunct2, THEN conjunct1])
  from meeting [THEN conjunct1, THEN iffD2, OF scenario_no_meeting_rule]
  have none: "get_applicable_penalty_rules (2025, 7, 1)
      [scenario_older_rule, scenario_newer_rule] 1 ''missed_meeting'' None = None" .
  from scenario_resolution found in_force none show ?thesis
    by (intro conjI)
qed

subsection \<open>Insufficient-payment penalties\<close>

lemma models_not_bound: "utils_global ''models'' = Inl (NameError ''models'')"
  by (simp add: utils_global_def utils_module_names_def)

lemma insufficient_payment_full_payment:
  "expected_amount \<le> paid_amount \<Longrightarrow>
     calculate_insufficient_payment_penalty penalty_rules s paid_amount expected_amount d
       = Inr (0, None)"
  by (simp add: calculate_insufficient_payment_penalty_def)

lemma insufficient_payment_raises:
  "paid_amount < expected_amount \<Longrightarrow>
     calculate_insufficient_payment_penalty penalty_rules s paid_amount expected_amount d
       = Inl (NameError ''models'')"
  by (simp add: calculate_insufficient_payment_penalty_def models_not_bound)

lemma insufficient_payment_lookup_zero:
  assumes "\<And>r. r \<in> set penalty_rules \<Longrightarrow> 0 \<le> grace_period_days r"
  shows "fst (insufficient_payment_lookup penalty_rules s shortage d) = 0"
proof (cases "first_penalty_rule
             (filter (\<lambda>r. effective_until r = None \<or> lookup_gte (effective_until r) d)
                (filter (\<lambda>r. stokvel r = s
                              \<and> penalty_type r = ''insufficient_payment''
                              \<and> is_active r \<and> effective_from r \<le> d)
                   penalty_rules))")
  case None
  then show ?thesis by (simp add: insufficient_payment_lookup_def)
next
  case (Some r)
  then have "r \<in> set penalty_rules"
    by (auto dest: first_penalty_rule_mem)
  then have "0 \<le> grace_period_days r" by (rule assms)
  then have "calculate_penalty r shortage 0 = 0"
    by (simp add: calculate_penalty_def)
  with Some show ?thesis by (simp add: insufficient_payment_lookup_def)
qed

lemma scenario_shortfall_lookup:
  "insufficient_payment_lookup [scenario_shortfall_rule] 1 100 (2025, 7, 1)
     = (0, Some scenario_shortfall_rule)"
  by (simp add: insufficient_payment_lookup_def first_penalty_rule_def lookup_gte_def
      calculate_penalty_def scenario_shortfall_rule_def scenario_fixed_rule_def)

text \<open>
  Claim C8 is not what the code does. With R100 paid of R200 expected the function does
  not return a penalty of 0: it raises \<^verbatim>\<open>NameError\<close>, because the rule lookup reads
  \<^verbatim>\<open>models.Q\<close> and \<^verbatim>\<open>stokvel/utils.py\<close> never imports \<^verbatim>\<open>models\<close>
  (\<open>insufficient_payment_raises\<close> shows the same for every shortfall). The lookup and the
  penalty it would compute do give 0 for rules with a non-negative grace period
  (\<open>insufficient_payment_lookup_zero\<close>).
\<close>

theorem insufficient_payment_penalty_raises_name_error:
  "calculate_insufficient_payment_penalty [scenario_shortfall_rule] 1 100 200 (2025, 7, 1)
     = Inl (NameError ''models'')"
  by (simp add: insufficient_payment_raises)

subsection \<open>Creating rules\<close>

lemma create_contribution_rule_dated:
  assumes "0 < amount_arg"
  shows "create_contribution_rule today contribution_rules s n t amount_arg fr ef (Some u) m =
     (if filter (\<lambda>r. stokvel_cr r = s \<and> contribution_type r = t \<and> is_active_cr r
                      \<and> effective_from_cr r \<le> u
                      \<and> lookup_gte (effective_until_cr r) (or_today today ef))
           contribution_rules \<noteq> []
      then Inl (ValidationError (''Overlapping '' @ t @ '' rule already exists for this period''))
      else Inr (\<lparr> pk_cr = next_pk (map pk_cr contribution_rules), stokvel_cr = s,
                  name_cr = n, contribution_type = t, amount_cr = amount_arg, frequency = fr,
                  effective_from_cr = or_today today ef, effective_until_cr = Some u,
                  is_active_cr = True, is_mandatory = m \<rparr>,
                contribution_rules @
                [\<lparr> pk_cr = next_pk (map pk_cr contribution_rules), stokvel_cr = s,
                   name_cr = n, contribution_type = t, amount_cr = amount_arg, frequency = fr,
                   effective_from_cr = or_today today ef, effective_until_cr = Some u,
                   is_active_cr = True, is_mandatory = m \<rparr>]))"
  using assms
  by (simp add: create_contribution_rule_def query_value_def Let_def)

lemma create_contribution_rule_rejects:
  assumes "0 < amount_arg"
    and "r \<in> set contribution_rules"
    and "stokvel_cr r = s" "contribution_type r = t" "is_active_cr r"
    and "effective_until_cr r = Some eu" "or_today today ef \<le> eu" "effective_from_cr r \<le> u"
  shows "create_contribution_rule today contribution_rules s n t amount_arg fr ef (Some u) m =
     Inl (ValidationError (''Overlapping '' @ t @ '' rule already exists for this period''))"
proof -
  have "r \<in> set (filter (\<lambda>r. stokvel_cr r = s \<and> contribution_type r = t \<and> is_active_cr r
                      \<and> effective_from_cr r \<le> u
                      \<and> lookup_gte (effective_until_cr r) (or_today today ef))
           contribution_rules)"
    using assms by (simp add: lookup_gte_def)
  then have "filter (\<lambda>r. stokvel_cr r = s \<and> contribution_type r = t \<and> is_active_cr r
                      \<and> effective_from_cr r \<le> u
                      \<and> lookup_gte (effective_until_cr r) (or_today today ef))
           contribution_rules \<noteq> []"
    by (metis empty_iff empty_set)
  then show ?thesis
    by (simp add: create_contribution_rule_dated [OF assms(1)])
qed

lemma create_contribution_rule_accepts:
  assumes "0 < amount_arg"
    and "\<And>r. r \<in> set contribution_rules \<Longrightarrow> stokvel_cr r = s \<Longrightarrow> contribution_type r = t
           \<Longrightarrow> is_active_cr r
           \<Longrightarrow> \<exists>eu. effective_until_cr r = Some eu
                 \<and> \<not> (effective_from_cr r \<le> u \<and> or_today today ef \<le> eu)"
  shows "\<exists>rule. create_contribution_rule today contribution_rules s n t amount_arg fr ef
                   (Some u) m = Inr (rule, contribution_rules @ [rule])
           \<and> stokvel_cr rule = s \<and> contribution_type rule = t \<and> is_active_cr rule
           \<and> effective_from_cr rule = or_today today ef \<and> effective_until_cr rule = Some u"
proof -
  have "filter (\<lambda>r. stokvel_cr r = s \<and> contribution_type r = t \<and> is_active_cr r
                      \<and> effective_from_cr r \<le> u
                      \<and> lookup_gte (effective_until_cr r) (or_today today ef))
           contribution_rules = []"
    using assms(2) by (fastforce simp: filter_empty_conv lookup_gte_def)
  then show ?thesis
    by (simp add: create_contribution_rule_dated [OF assms(1)])
qed


text \<open>
  Claim C1, as the code has it. Effective intervals are closed: a rule is in force on its
  \<open>effective_until\<close> date. Creating a contribution rule with a positive amount and an
  end date fails with the overlap error when some active rule of the same stokvel and
  category with an end date has an interval that shares a day with the new one; and when
  every active rule of the same stokvel and category has an end date and none shares a
  day with the new interval, creation succeeds and appends the new rule, active, with the
  given interval. In the specification's scenario, with A and B present, rule C from
  2025-05-01 to 2025-08-01 is rejected.
\<close>

theorem contribution_rule_overlap_check:
  "0 < amount_arg \<Longrightarrow>
     ((\<exists>r \<in> set contribution_rules. stokvel_cr r = s \<and> contribution_type r = t
           \<and> is_active_cr r
           \<and> (\<exists>eu. effective_until_cr r = Some eu \<and> or_today today ef \<le> eu)
           \<and> effective_from_cr r \<le> u)
       \<longrightarrow> create_contribution_rule today contribution_rules s n t amount_arg fr ef (Some u) m
            = Inl (ValidationError
                     (''Overlapping '' @ t @ '' rule already exists for this period'')))
     \<and> ((\<forall>r \<in> set contribution_rules. stokvel_cr r = s \<and> contribution_type r = t
             \<and> is_active_cr r
             \<longrightarrow> (\<exists>eu. effective_until_cr r = Some eu
                    \<and> \<not> (effective_from_cr r \<le> u \<and> or_today today ef \<le> eu)))
         \<longrightarrow> (\<exists>rule. create_contribution_rule today contribution_rules s n t amount_arg fr ef
                         (Some u) m = Inr (rule, contribution_rules @ [rule])
                 \<and> stokvel_cr rule = s \<and> contribution_type rule = t \<and> is_active_cr rule
                 \<and> effective_from_cr rule = or_today today ef
                 \<and> effective_until_cr rule = Some u))"
proof (intro conjI impI)
  assume amount: "0 < amount_arg"
  {
    assume "\<exists>r \<in> set contribution_rules. stokvel_cr r = s \<and> contribution_type r = t
           \<and> is_active_cr r
           \<and> (\<exists>eu. effective_until_cr r = Some eu \<and> or_today today ef \<le> eu)
           \<and> effective_from_cr r \<le> u"
    then obtain r eu where "r \<in> set contribution_rules" "stokvel_cr r = s"
      "contribution_type r = t" "is_active_cr r" "effective_until_cr r = Some eu"
      "or_today today ef \<le> eu" "effective_from_cr r \<le> u"
      by blast
    with amount
    show "create_contribution_rule today contribution_rules s n t amount_arg fr ef (Some u) m
            = Inl (ValidationError
                     (''Overlapping '' @ t @ '' rule already exists for this period''))"
      by (rule create_contribution_rule_rejects)
  }
  {
    assume free: "\<forall>r \<in> set contribution_rules. stokvel_cr r = s \<and> contribution_type r = t
             \<and> is_active_cr r
             \<longrightarrow> (\<exists>eu. effective_until_cr r = Some eu
                    \<and> \<not> (effective_from_cr r \<le> u \<and> or_today today ef \<le> eu))"
    show "\<exists>rule. create_contribution_rule today contribution_rules s n t amount_arg fr ef
                         (Some u) m = Inr (rule, contribution_rules @ [rule])
                 \<and> stokvel_cr rule = s \<and> contribution_type rule = t \<and> is_active_cr rule
                 \<and> effective_from_cr rule = or_today today ef
                 \<and> effective_until_cr rule = Some u"
    proof (rule create_contribution_rule_accepts [OF amount])
      fix r
      assume "r \<in> set contribution_rules" "stokvel_cr r = s" "contribution_type r = t"
        "is_active_cr r"
      with free show "\<exists>eu. effective_until_cr r = Some eu
                 \<and> \<not> (effective_from_cr r \<le> u \<and> or_today today ef \<le> eu)"
        by blast
    qed
  }
qed


lemma scenario_c_overlaps_a:
  "\<exists>r \<in> set [scenario_rule_a, scenario_rule_b]. stokvel_cr r = 1
      \<and> contribution_type r = ''regular'' \<and> is_active_cr r
      \<and> (\<exists>eu. effective_until_cr r = Some eu
             \<and> or_today (2025, 1, 15) (Some (2025, 5, 1)) \<le> eu)
      \<and> effective_from_cr r \<le> (2025, 8, 1)"
  by (simp add: scenario_rule_a_def or_today_def)

lemma scenario_second_half_free:
  "\<forall>r \<in> set [scenario_rule_a]. stokvel_cr r = 1 \<and> contribution_type r = ''regular''
       \<and> is_active_cr r
       \<longrightarrow> (\<exists>eu. effective_until_cr r = Some eu
              \<and> \<not> (effective_from_cr r \<le> (2025, 12, 31)
                    \<and> or_today (2025, 1, 15) (Some (2025, 7, 1)) \<le> eu))"
  by (simp add: scenario_rule_a_def or_today_def)

theorem contribution_rule_overlap_check_witness:
  "create_contribution_rule (2025, 1, 15) [scenario_rule_a, scenario_rule_b] 1 ''Rule C''
       ''regular'' 300 ''monthly'' (Some (2025, 5, 1)) (Some (2025, 8, 1)) True
     = Inl (ValidationError
              (''Overlapping '' @ ''regular'' @ '' rule already exists for this period''))
   \<and> (\<exists>rule. create_contribution_rule (2025, 1, 15) [scenario_rule_a] 1 ''Rule D''
                 ''regular'' 250 ''monthly'' (Some (2025, 7, 1)) (Some (2025, 12, 31)) True
               = Inr (rule, [scenario_rule_a] @ [rule])
         \<and> stokvel_cr rule = 1 \<and> contribution_type rule = ''regular'' \<and> is_active_cr rule
         \<and> effective_from_cr rule = or_today (2025, 1, 15) (Some (2025, 7, 1))
         \<and> effective_until_cr rule = Some (2025, 12, 31))"
proof -
  have c: "(0::rat) < 300" and d: "(0::rat) < 250" by simp_all
  note rejected = contribution_rule_overlap_check
      [OF c, of "[scenario_rule_a, scenario_rule_b]" 1 "''regular''" "(2025, 1, 15)"
        "Some (2025, 5, 1)" "(2025, 8, 1)" "''Rule C''" "''monthly''" True,
        THEN conjunct1, THEN mp, OF scenario_c_overlaps_a]
  note accepted = contribution_rule_overlap_check
      [OF d, of "[scenario_rule_a]" 1 "''regular''" "(2025, 1, 15)"
        "Some (2025, 7, 1)" "(2025, 12, 31)" "''Rule D''" "''monthly''" True,
        THEN conjunct2, THEN mp, OF scenario_second_half_free]
  from rejected accepted show ?thesis by (rule conjI)
qed

text \<open>
  Claim C1 as stated reads the intervals as half-open. A new rule from 2025-06-30 to
  2025-12-31 does not intersect rule A, which ends on 2025-06-30, in the specification's
  half-open test, so the claim has its creation succeed; the code rejects it.
\<close>

theorem touching_intervals_counterexample:
  "\<not> spec_intervals_intersect (2025, 6, 30) (Some (2025, 12, 31))
        (effective_from_cr scenario_rule_a) (effective_until_cr scenario_rule_a)
   \<and> create_contribution_rule (2025, 1, 15) [scenario_rule_a] 1 ''Rule D'' ''regular'' 250
        ''monthly'' (Some (2025, 6, 30)) (Some (2025, 12, 31)) True
      = Inl (ValidationError ''Overlapping regular rule already exists for this period'')"
  by (simp add: spec_intervals_intersect_def create_contribution_rule_def query_value_def
      or_today_def lookup_gte_def scenario_rule_a_def)

text \<open>
  Creating a rule without an end date, such as the scenario's rule B, does not reach the
  overlap test: the lookup value of \<^verbatim>\<open>effective_until__gte\<close> is then \<^verbatim>\<open>None\<close> and
  building the query raises \<^verbatim>\<open>ValueError\<close>.
\<close>

lemma open_ended_rule_b_raises:
  "create_contribution_rule (2025, 1, 15) [scenario_rule_a] 1 ''Rule B'' ''regular'' 250
     ''monthly'' (Some (2025, 7, 1)) None True = Inl ValueError"
  by (simp add: create_contribution_rule_def query_value_def)

lemma create_contribution_rule_open_ended:
  "0 < amount_arg \<Longrightarrow>
     create_contribution_rule today contribution_rules s n t amount_arg fr ef None m
       = Inl ValueError"
  by (simp add: create_contribution_rule_def query_value_def)


text \<open>
  \<^verbatim>\<open>create_penalty_rule\<close> does not compare intervals: it rejects a new rule when an
  active rule of the same stokvel and category with an end date is in force today, and
  never sees an open-ended one.
\<close>

lemma first_penalty_rule_Some_iff:
  "(\<exists>r. first_penalty_rule rows = Some r) \<longleftrightarrow> rows \<noteq> []"
  using first_penalty_rule_None_iff [of rows] by auto

lemma create_penalty_rule_checks_today:
  assumes "\<not> (cm = ''percentage'' \<and> 100 < a)" "0 \<le> a"
  shows "create_penalty_rule today penalty_rules s n pt cm a g mx ef =
     (if filter (\<lambda>r. stokvel r = s \<and> penalty_type r = pt \<and> is_active r
                      \<and> effective_from r \<le> today \<and> lookup_gte (effective_until r) today)
           penalty_rules \<noteq> []
      then Inl (ValidationError
                  (''Active '' @ pt @ '' rule already exists. ''
                     @ ''Deactivate existing rule before creating new one.''))
      else Inr (\<lparr> pk = next_pk (map pk penalty_rules), stokvel = s, name_pr = n,
                  penalty_type = pt, calculation_method = cm, amount = a,
                  grace_period_days = g, maximum_amount = mx,
                  effective_from = or_today today ef, effective_until = None,
                  is_active = True \<rparr>,
                penalty_rules @
                [\<lparr> pk = next_pk (map pk penalty_rules), stokvel = s, name_pr = n,
                   penalty_type = pt, calculation_method = cm, amount = a,
                   grace_period_days = g, maximum_amount = mx,
                   effective_from = or_today today ef, effective_until = None,
                   is_active = True \<rparr>]))"
  using assms
  by (simp add: create_penalty_rule_def Let_def first_penalty_rule_Some_iff)

lemma create_penalty_rule_beside_open_rule:
  "\<exists>rule. create_penalty_rule (2025, 7, 1) [scenario_newer_rule] 1 ''Second'' ''late_payment''
             ''fixed'' 75 0 None (Some (2025, 7, 1)) = Inr (rule, [scenario_newer_rule, rule])"
  by (simp add: create_penalty_rule_checks_today lookup_gte_def scenario_newer_rule_def
      scenario_fixed_rule_def)

subsection \<open>Primary bank accounts\<close>

text \<open>
  Saving an active account flagged primary, and \<^verbatim>\<open>set_primary_account\<close> on an active
  account, leave that account as the only active primary account of its stokvel.
\<close>

lemma filter_replace_one:
  assumes "distinct (map k xs)" "a_key \<in> set (map k xs)" "P a"
    and "\<And>x. x \<in> set xs \<Longrightarrow> k x \<noteq> a_key \<Longrightarrow> \<not> P (g x)"
  shows "filter P (map (\<lambda>x. if k x = a_key then a else g x) xs) = [a]"
  using assms
proof (induction xs)
  case Nil
  then show ?case by simp
next
  case (Cons x xs)
  show ?case
  proof (cases "k x = a_key")
    case True
    with Cons.prems(1) have "\<forall>y \<in> set xs. k y \<noteq> a_key" by (auto simp: image_iff)
    with Cons.prems(4) have "filter P (map (\<lambda>x. if k x = a_key then a else g x) xs) = []"
      by (auto simp: filter_empty_conv)
    with True Cons.prems(3) show ?thesis by simp
  next
    case False
    with Cons.prems have "a_key \<in> set (map k xs)" "distinct (map k xs)" by auto
    with Cons.IH Cons.prems(3,4)
    have "filter P (map (\<lambda>x. if k x = a_key then a else g x) xs) = [a]" by simp
    moreover from False Cons.prems(4) have "\<not> P (g x)" by simp
    ultimately show ?thesis using False by simp
  qed
qed

lemma clear_other_primaries_pks [simp]:
  "map pk_ba (clear_other_primaries self table) = map pk_ba table"
  by (simp add: clear_other_primaries_def comp_def)

lemma save_primary_exactly_one:
  assumes "distinct (map pk_ba table)" "is_primary self" "is_active_ba self"
  shows "active_primary_accounts (stokvel_ba self) (save_bank_account self table) = [self]"
proof (cases "pk_ba self \<in> set (map pk_ba table)")
  case True
  have "save_bank_account self table =
          map (\<lambda>r. if pk_ba r = pk_ba self then self
                    else if stokvel_ba r = stokvel_ba self \<and> is_primary r
                      then r\<lparr>is_primary := False\<rparr> else r) table"
    using True assms(2)
    by (auto simp: save_bank_account_def model_save_def clear_other_primaries_def)
  moreover have "filter (\<lambda>r. stokvel_ba r = stokvel_ba self \<and> is_active_ba r \<and> is_primary r)
      (map (\<lambda>r. if pk_ba r = pk_ba self then self
                    else if stokvel_ba r = stokvel_ba self \<and> is_primary r
                      then r\<lparr>is_primary := False\<rparr> else r) table) = [self]"
    by (rule filter_replace_one [OF assms(1) True]) (use assms in auto)
  ultimately show ?thesis by (simp add: active_primary_accounts_def)
next
  case False
  have "save_bank_account self table = clear_other_primaries self table @ [self]"
    using False assms(2) by (simp add: save_bank_account_def model_save_def)
  moreover have "filter (\<lambda>r. stokvel_ba r = stokvel_ba self \<and> is_active_ba r \<and> is_primary r)
      (clear_other_primaries self table) = []"
    using False by (auto simp: filter_empty_conv clear_other_primaries_def image_iff)
  ultimately show ?thesis using assms by (simp add: active_primary_accounts_def)
qed

lemma set_primary_account_exactly_one:
  assumes "distinct (map pk_ba table)" "is_active_ba account"
  shows "active_primary_accounts (stokvel_ba account) (snd (set_primary_account account table))
           = [account\<lparr>is_primary := True\<rparr>]"
proof -
  have "distinct (map pk_ba (clear_other_primaries account table))"
    using assms(1) by simp
  then have "active_primary_accounts (stokvel_ba (account\<lparr>is_primary := True\<rparr>))
      (save_bank_account (account\<lparr>is_primary := True\<rparr>) (clear_other_primaries account table))
        = [account\<lparr>is_primary := True\<rparr>]"
    by (rule save_primary_exactly_one) (use assms in simp_all)
  then show ?thesis by (simp add: set_primary_account_def Let_def)
qed


text \<open>
  Deactivating the only primary account of a stokvel leaves the stokvel without a primary
  account, whatever other active accounts it has: the account fetched for promotion is
  saved without the flag.
\<close>

lemma foldr_max_ge: "x \<in> set pks \<Longrightarrow> x \<le> foldr max pks (0::nat)"
  by (induction pks) (auto simp: max_def)

lemma next_pk_fresh: "next_pk pks \<notin> set pks"
proof
  assume "next_pk pks \<in> set pks"
  then have "next_pk pks \<le> foldr max pks 0" by (rule foldr_max_ge)
  then show False by (simp add: next_pk_def)
qed

lemma model_save_present:
  assumes "distinct (map pk_ba table)" "r \<in> set table"
  shows "model_save r table = table"
proof -
  have "inj_on pk_ba (set table)"
    using assms(1) by (simp add: distinct_map)
  then have "\<And>x. x \<in> set table \<Longrightarrow> pk_ba x = pk_ba r \<Longrightarrow> x = r"
    using assms(2) by (auto dest: inj_onD)
  then have "map (\<lambda>x. if pk_ba x = pk_ba r then r else x) table = table"
    by (intro map_idI) auto
  moreover have "pk_ba r \<in> set (map pk_ba table)"
    using assms(2) by simp
  ultimately show ?thesis by (simp add: model_save_def)
qed

lemma first_bank_account_nonempty:
  assumes "rows \<noteq> []"
  shows "\<exists>r. first_bank_account rows = Some r \<and> r \<in> set rows"
proof (cases "sort_key pk_ba rows")
  case Nil
  then have "set (sort_key pk_ba rows) = {}" by simp
  with assms show ?thesis by simp
next
  case (Cons r rest)
  then have "r \<in> set (sort_key pk_ba rows)" by simp
  then have "r \<in> set rows" by simp
  with Cons show ?thesis by (simp add: first_bank_account_def)
qed


lemma deactivate_primary_leaves_none:
  assumes d: "distinct (map pk_ba table)" and mem: "account \<in> set table"
    and only: "active_primary_accounts (stokvel_ba account) table = [account]"
  shows "\<exists>account' table'. deactivate_account account table = Inr (account', table')
           \<and> active_primary_accounts (stokvel_ba account) table' = []
           \<and> (\<forall>r \<in> set table. pk_ba r \<noteq> pk_ba account \<longrightarrow> r \<in> set table')"
proof -
  define others where "others = filter (\<lambda>r. stokvel_ba r = stokvel_ba account
      \<and> is_active_ba r \<and> pk_ba r \<noteq> pk_ba account) table"
  define closed where "closed = account\<lparr>is_active_ba := False, is_primary := False\<rparr>"
  define final where "final = map (\<lambda>r. if pk_ba r = pk_ba account then closed else r) table"
  from only have "account \<in> set (active_primary_accounts (stokvel_ba account) table)"
    by simp
  then have prim: "is_primary account"
    by (simp add: active_primary_accounts_def)
  have not_primary: "\<not> is_primary r"
    if "r \<in> set table" "stokvel_ba r = stokvel_ba account" "is_active_ba r"
      "pk_ba r \<noteq> pk_ba account" for r
  proof
    assume "is_primary r"
    with that have "r \<in> set (active_primary_accounts (stokvel_ba account) table)"
      by (simp add: active_primary_accounts_def)
    with only have "r = account" by simp
    with that(4) show False by simp
  qed
  have closing: "save_bank_account closed table = final"
    using mem by (auto simp: save_bank_account_def model_save_def closed_def final_def)
  have result: "deactivate_account account table = Inr (closed, final)"
  proof (cases "others = []")
    case True
    then show ?thesis
      using closing
      by (simp add: deactivate_account_def Let_def others_def [symmetric] closed_def [symmetric])
  next
    case False
    then obtain r where r: "first_bank_account others = Some r" "r \<in> set others"
      using first_bank_account_nonempty by blast
    then have in_table: "r \<in> set table" and "\<not> is_primary r"
      using not_primary by (auto simp: others_def)
    then have "save_bank_account r table = table"
      using d by (simp add: save_bank_account_def model_save_present)
    with r prim False closing show ?thesis
      by (simp add: deactivate_account_def Let_def others_def [symmetric] closed_def [symmetric])
  qed
  have "active_primary_accounts (stokvel_ba account) final = []"
    using not_primary
    by (auto simp: active_primary_accounts_def final_def closed_def filter_empty_conv)
  moreover have "\<forall>r \<in> set table. pk_ba r \<noteq> pk_ba account \<longrightarrow> r \<in> set final"
    by (auto simp: final_def)
  ultimately show ?thesis using result by blast
qed


text \<open>
  Adding an account keeps or establishes exactly one active primary account: the new
  account is primary when asked or when it is the stokvel's first active account, and
  otherwise the one primary account there was stays the only one.
\<close>

lemma add_bank_account_one_primary:
  assumes added: "add_bank_account table s bn an anum bc atype p = Inr (account, table')"
    and d: "distinct (map pk_ba table)"
    and before: "\<not> p \<Longrightarrow> filter (\<lambda>r. stokvel_ba r = s \<and> is_active_ba r) table \<noteq> []
                  \<Longrightarrow> length (active_primary_accounts s table) = 1"
  shows "length (active_primary_accounts s table') = 1"
proof -
  define flag where
    "flag = (if filter (\<lambda>r. stokvel_ba r = s \<and> is_active_ba r) table = [] then True else p)"
  define new where
    "new = \<lparr> pk_ba = next_pk (map pk_ba table), stokvel_ba = s, bank_name = bn,
              account_name = an, account_number = anum, branch_code = bc, account_type = atype,
              is_primary = flag, is_active_ba = True \<rparr>"
  from added have table': "table' = save_bank_account new table"
    by (auto simp: add_bank_account_def Let_def new_def flag_def split: if_splits)
  show ?thesis
  proof (cases flag)
    case True
    then have "active_primary_accounts (stokvel_ba new) (save_bank_account new table) = [new]"
      using d by (intro save_primary_exactly_one) (simp_all add: new_def)
    then show ?thesis by (simp add: table' new_def)
  next
    case False
    then have "\<not> p" "filter (\<lambda>r. stokvel_ba r = s \<and> is_active_ba r) table \<noteq> []"
      by (auto simp: flag_def split: if_splits)
    then have one: "length (active_primary_accounts s table) = 1" by (rule before)
    have "pk_ba new \<notin> set (map pk_ba table)"
      using next_pk_fresh [of "map pk_ba table"] by (simp add: new_def)
    then have "save_bank_account new table = table @ [new]"
      using False by (simp add: save_bank_account_def model_save_def new_def)
    then show ?thesis
      using one False by (simp add: table' active_primary_accounts_def new_def)
  qed
qed

text \<open>
  Claim C10 asks that deactivating the primary account, while other active accounts
  exist, promotes another active account, so that exactly one active account is primary
  afterwards. With two active accounts of stokvel 1, the first primary, deactivating the
  first leaves the second active and not primary: the stokvel then has an active account
  and no primary one.
\<close>

theorem deactivating_primary_promotes_nobody:
  "deactivate_account scenario_account_one [scenario_account_one, scenario_account_two]
     = Inr (scenario_account_one\<lparr>is_active_ba := False, is_primary := False\<rparr>,
            [scenario_account_one\<lparr>is_active_ba := False, is_primary := False\<rparr>,
             scenario_account_two])
   \<and> stokvel_ba scenario_account_two = 1
   \<and> is_active_ba scenario_account_two
   \<and> active_primary_accounts 1
        [scenario_account_one\<lparr>is_active_ba := False, is_primary := False\<rparr>,
         scenario_account_two] = []"
  by (simp add: deactivate_account_def first_bank_account_def save_bank_account_def
      model_save_def active_primary_accounts_def scenario_account_one_def
      scenario_account_two_def Let_def)

end
